theory Spec2Isabelle
  imports Main
begin


section \<open>Wire types and errors\<close>

text \<open>
  A \<open>json.RawMessage\<close> is a byte slice that may be \<open>nil\<close>: \<open>None\<close> is the nil slice,
  \<open>Some bs\<close> a slice with the bytes \<open>bs\<close>. The conversion \<open>string(raw)\<close> of Go gives
  the empty string for both the nil and the empty slice.
\<close>

type_synonym RawMessage = "string option"

definition string_of :: "RawMessage \<Rightarrow> string" where
  "string_of raw = (case raw of None \<Rightarrow> [] | Some bs \<Rightarrow> bs)"

text \<open>
  The wire request \<open>jrequest\<close> with its fields \<open>V\<close>, \<open>ID\<close>, \<open>M\<close> and \<open>P\<close>; a batch
  \<open>jrequests\<close> is a list of them. The fields of the wire response \<open>jresponse\<close> carry the
  prefix \<open>rsp\<close>, those of the wire error \<open>jerror\<close> the prefix \<open>je\<close>.
\<close>

record jrequest =
  V :: string
  ID :: RawMessage
  M :: string
  P :: RawMessage

type_synonym jrequests = "jrequest list"

record jerror =
  je_Code :: int
  je_Msg :: string
  je_Data :: RawMessage

record jresponse =
  rsp_V :: string
  rsp_ID :: RawMessage
  rsp_E :: "jerror option"
  rsp_R :: RawMessage

type_synonym jresponses = "jresponse list"

text \<open>
  Values of Go's \<open>error\<close> interface, by the dynamic types that the server tells apart:
  \<open>ErrorP\<close> is a \<open>*Error\<close> (code, message, data), \<open>CodeE\<close> a \<open>Code\<close> used as an error,
  and \<open>Plain\<close> is any other error. Of the plain errors the code singles out \<open>io.EOF\<close>
  and the error types of \<open>encoding/json\<close>; \<open>ErrorString\<close> is every other error. Each
  plain error is kept with its text, the result of its method \<open>Error\<close>.
\<close>

datatype plain =
    EOF
  | UnmarshalTypeError string
  | UnsupportedTypeError string
  | SyntaxError string
  | ErrorString string

datatype error =
    ErrorP int string RawMessage
  | CodeE int
  | Plain plain

text \<open>
  A run-time panic of the Go program: the dereference of a nil pointer or interface, and
  the failure of \<open>make\<close> to allocate a slice of the length asked for.
\<close>

datatype panic = NilDereference | MakesliceLenOutOfRange

definition E_InvalidRequest :: int where "E_InvalidRequest = - 32600"
definition E_MethodNotFound :: int where "E_MethodNotFound = - 32601"
definition E_InvalidParams :: int where "E_InvalidParams = - 32602"
definition E_InternalError :: int where "E_InternalError = - 32603"

text \<open>Modelled from the spec: the version marker \<open>Version\<close>, which section 6 gives as "2.0".\<close>

definition Version :: string where "Version = ''2.0''"

text \<open>
  Modelled from the spec: \<open>Errorf\<close> builds a structured \<open>*Error\<close> with the given code and
  the formatted message, \<open>jerrorf\<close> the wire error object of the same shape, and \<open>tojerror\<close>
  carries the code, message and data of a \<open>*Error\<close> over as they are. The formatting of the
  message is done by the caller in this model.
\<close>

definition Errorf :: "int \<Rightarrow> string \<Rightarrow> error" where
  "Errorf code msg = ErrorP code msg None"

definition jerrorf :: "int \<Rightarrow> string \<Rightarrow> jerror" where
  "jerrorf code msg = \<lparr>je_Code = code, je_Msg = msg, je_Data = None\<rparr>"

definition tojerror :: "int \<Rightarrow> string \<Rightarrow> RawMessage \<Rightarrow> jerror" where
  "tojerror code msg data = \<lparr>je_Code = code, je_Msg = msg, je_Data = data\<rparr>"

text \<open>The text \<open>err.Error()\<close> of a plain error, as the verb \<open>%v\<close> prints it.\<close>

fun error_text :: "plain \<Rightarrow> string" where
  "error_text EOF = ''EOF''"
| "error_text (UnmarshalTypeError t) = t"
| "error_text (UnsupportedTypeError t) = t"
| "error_text (SyntaxError t) = t"
| "error_text (ErrorString t) = t"

section \<open>The server\<close>

text \<open>
  The request handed to a handler, with its fields \<open>id\<close>, \<open>method\<close> and \<open>params\<close>.
  Modelled from the spec: \<open>IsNotification\<close> holds of a request without an id.
\<close>

record Request =
  Request_id :: RawMessage
  Request_method :: string
  Request_params :: RawMessage

definition IsNotification :: "Request \<Rightarrow> bool" where
  "IsNotification req = (Request_id req = None)"

record ServerInfo =
  Methods :: "string list"
  Requests :: int
  BytesIn :: int
  BytesOut :: int

text \<open>
  A handler returns a value or an error. The values are those of the user's handlers
  (\<open>User\<close>) and the snapshot that the built-in \<open>rpc.serverInfo\<close> returns (\<open>Info\<close>).
  A \<open>Method\<close> is its \<open>Call\<close>, a function of the context and the request.
\<close>

datatype 'u val = User 'u | Info ServerInfo

type_synonym ('c, 'u) Method = "'c \<Rightarrow> Request \<Rightarrow> error + 'u val"

record ('c, 'u) Assigner =
  Assign :: "string \<Rightarrow> ('c, 'u) Method option"
  Names :: "string list"

text \<open>
  The functions that the server calls and that are not part of the sources at hand are
  parameters of the model: \<open>fixID\<close> (the normalisation of a request id), \<open>fmt_q\<close> (the
  verb \<open>%q\<close> of \<open>fmt\<close>), \<open>code_text\<close> (the method \<open>Error\<close> of a \<open>Code\<close>),
  \<open>unmarshal\<close> (\<open>json.Unmarshal\<close> into a batch: the requests decoded and the error),
  \<open>marshal\<close> (\<open>json.Marshal\<close> of a handler's value) and \<open>wire\<close> (the bytes that
  \<open>encode\<close> writes for a list of responses).
\<close>

record 'u ext =
  fixID :: "RawMessage \<Rightarrow> RawMessage"
  fmt_q :: "string \<Rightarrow> string"
  code_text :: "int \<Rightarrow> string"
  unmarshal :: "string \<Rightarrow> jrequests \<times> error option"
  marshal :: "'u val \<Rightarrow> error + string"
  wire :: "jresponses \<Rightarrow> string"

subsection \<open>The inbound queue: \<open>container/list\<close>\<close>

text \<open>
  A \<open>list.List\<close> is a doubly linked list of elements, and the server holds pointers to
  its elements (\<open>Front\<close>, \<open>Back\<close>, \<open>Next\<close>). An element is named by a number; \<open>order\<close>
  lists the elements linked into the list from front to back, \<open>vals\<close> keeps the \<open>Value\<close>
  of every element ever made (an element keeps its value when it is removed), and a pointer
  to an element is a \<open>nat option\<close> with \<open>None\<close> for \<open>nil\<close>. \<open>Remove\<close> unlinks the
  element and clears its \<open>next\<close>, \<open>prev\<close> and \<open>list\<close> fields, so that \<open>Next\<close> of a
  removed element is \<open>nil\<close>.
\<close>

record 'a List =
  order :: "nat list"
  vals :: "nat \<Rightarrow> 'a option"
  fresh :: nat

definition New :: "'a List" where
  "New = \<lparr>order = [], vals = (\<lambda>_. None), fresh = 0\<rparr>"

definition Len :: "'a List \<Rightarrow> nat" where
  "Len l = length (order l)"

definition Front :: "'a List \<Rightarrow> nat option" where
  "Front l = (case order l of [] \<Rightarrow> None | e # _ \<Rightarrow> Some e)"

definition Back :: "'a List \<Rightarrow> nat option" where
  "Back l = (if order l = [] then None else Some (last (order l)))"

fun successor :: "nat \<Rightarrow> nat list \<Rightarrow> nat option" where
  "successor e [] = None"
| "successor e [x] = None"
| "successor e (x # y # ys) = (if x = e then Some y else successor e (y # ys))"

definition Next :: "'a List \<Rightarrow> nat \<Rightarrow> nat option" where
  "Next l e = successor e (order l)"

definition PushBack :: "'a List \<Rightarrow> 'a \<Rightarrow> 'a List" where
  "PushBack l v =
     l\<lparr>order := order l @ [fresh l], vals := (vals l)(fresh l := Some v), fresh := Suc (fresh l)\<rparr>"

definition Remove :: "'a List \<Rightarrow> nat \<Rightarrow> 'a List" where
  "Remove l e = l\<lparr>order := filter (\<lambda>x. x \<noteq> e) (order l)\<rparr>"

text \<open>The queue that holds the given batches, pushed in this order onto a new list.\<close>

definition queue_of :: "'a list \<Rightarrow> 'a List" where
  "queue_of bs = foldl PushBack New bs"

text \<open>The batches of a queue, from front to back.\<close>

definition batches :: "'a List \<Rightarrow> 'a list" where
  "batches l = map (\<lambda>e. the (vals l e)) (order l)"

subsection \<open>The channel and the server state\<close>

text \<open>
  The channel to the client is an interface value given to \<open>Start\<close>. Its state is the list
  of messages written to it so far, each one the list of responses that \<open>encode\<close> wrote as
  one JSON value, and whether it has been closed.

  Modelled from the spec: \<open>encode\<close> marshals the responses into one JSON value and sends it
  on the channel; it returns the number of bytes written and the error. A closed channel
  takes no message and reports an error.
\<close>

record Channel =
  sent :: "jresponses list"
  closed :: bool

definition encode :: "'u ext \<Rightarrow> Channel \<Rightarrow> jresponses \<Rightarrow> int \<times> error option \<times> Channel" where
  "encode x c rsps =
     (if closed c then (0, Some (Plain (ErrorString ''send on closed channel'')), c)
      else (int (length (wire x rsps)), None, c\<lparr>sent := sent c @ [rsps]\<rparr>))"

text \<open>
  The fields of \<open>Server\<close> that the operations below read or write. \<open>ch\<close> is \<open>None\<close> when
  the field is \<open>nil\<close> (the server is not running), and holds the state of the channel
  otherwise; \<open>info\<close> is a pointer as well. \<open>used\<close> is the set of ids.
\<close>

record ('c, 'u) Server =
  mux :: "('c, 'u) Assigner"
  allow1 :: bool
  reqctx :: "Request \<Rightarrow> error + 'c"
  err :: "error option"
  inq :: "jrequests List"
  ch :: "Channel option"
  info :: "ServerInfo option"
  used :: "string set"

subsection \<open>Validation of a batch: \<open>nextRequest\<close>\<close>

definition versionOK :: "('c, 'u) Server \<Rightarrow> string \<Rightarrow> bool" where
  "versionOK s v = (if v = [] then allow1 s else v = Version)"

definition assign :: "('c, 'u) Server \<Rightarrow> string \<Rightarrow> ('c, 'u) Method option" where
  "assign s name =
     (case info s of
        Some i \<Rightarrow>
          if name = ''rpc.serverInfo''
          then Some (\<lambda>ctx req. Inr (Info (i\<lparr>Methods := Names (mux s)\<rparr>)))
          else Assign (mux s) name
      | None \<Rightarrow> Assign (mux s) name)"

record ('c, 'u) task =
  task_m :: "('c, 'u) Method option"
  task_req :: jrequest
  task_val :: RawMessage
  task_err :: "error option"

type_synonym ('c, 'u) tasks = "('c, 'u) task list"

text \<open>
  The body of the loop over the batch. The request is reached through a pointer, so the
  task holds the request with its id normalised. \<open>used.Add\<close> adds the id and reports
  whether it was new.
\<close>

definition check :: "'u ext \<Rightarrow> ('c, 'u) Server \<Rightarrow> jrequest \<Rightarrow> ('c, 'u) task \<times> ('c, 'u) Server" where
  "check x s req0 =
     (let req = req0\<lparr>ID := fixID x (ID req0)\<rparr>;
          t = \<lparr>task_m = None, task_req = req, task_val = None, task_err = None\<rparr>;
          id = string_of (ID req)
      in if id \<noteq> [] \<and> id \<in> used s then
           (t\<lparr>task_err := Some (Errorf E_InvalidRequest (''duplicate request id '' @ fmt_q x id))\<rparr>, s)
         else
           (let s' = (if id \<noteq> [] then s\<lparr>used := insert id (used s)\<rparr> else s)
            in if \<not> versionOK s' (V req) then
                 (t\<lparr>task_err := Some (Errorf E_InvalidRequest
                      (''incorrect version marker '' @ fmt_q x (V req)))\<rparr>, s')
               else if M req = [] then
                 (t\<lparr>task_err := Some (Errorf E_InvalidRequest ''empty method name'')\<rparr>, s')
               else (case assign s' (M req) of
                       None \<Rightarrow>
                         (t\<lparr>task_err := Some (Errorf E_MethodNotFound
                              (''no such method '' @ fmt_q x (M req)))\<rparr>, s')
                     | Some m \<Rightarrow> (t\<lparr>task_m := Some m\<rparr>, s'))))"

fun check_all :: "'u ext \<Rightarrow> ('c, 'u) Server \<Rightarrow> jrequests \<Rightarrow> ('c, 'u) tasks \<times> ('c, 'u) Server" where
  "check_all x s [] = ([], s)"
| "check_all x s (req # reqs) =
     (let (t, s1) = check x s req;
          (ts, s2) = check_all x s1 reqs
      in (t # ts, s2))"

text \<open>
  \<open>nextRequest\<close> under the lock. It waits while the server runs and the queue is empty
  (\<open>Blocked\<close>), returns the recorded error when the server has stopped and the queue is
  empty (\<open>Exit\<close>), and otherwise removes the front batch and returns its tasks together
  with the channel it captured, for the function that completes the batch.
\<close>

datatype ('c, 'u) next_result =
    Blocked
  | Exit "error option"
  | Ready "('c, 'u) tasks" bool "('c, 'u) Server"

definition nextRequest :: "'u ext \<Rightarrow> ('c, 'u) Server \<Rightarrow> panic + ('c, 'u) next_result" where
  "nextRequest x s =
     (if ch s \<noteq> None \<and> Len (inq s) = 0 then Inr Blocked
      else if ch s = None \<and> Len (inq s) = 0 then Inr (Exit (err s))
      else (case Front (inq s) of
              None \<Rightarrow> Inl NilDereference
            | Some e \<Rightarrow>
                (case vals (inq s) e of
                   None \<Rightarrow> Inl NilDereference
                 | Some next \<Rightarrow>
                     (let (ts, s') = check_all x (s\<lparr>inq := Remove (inq s) e\<rparr>) next
                      in Inr (Ready ts (ch s \<noteq> None) s')))))"

subsection \<open>Running a batch: \<open>dispatch\<close>, \<open>responses\<close> and the returned function\<close>

definition dispatch ::
  "'u ext \<Rightarrow> ('c, 'u) Server \<Rightarrow> ('c, 'u) Method \<Rightarrow> Request \<Rightarrow> RawMessage \<times> error option" where
  "dispatch x s m req =
     (case reqctx s req of
        Inl e \<Rightarrow> (None, Some e)
      | Inr ctx \<Rightarrow>
          (case m ctx req of
             Inl e \<Rightarrow> if IsNotification req then (None, None) else (None, Some e)
           | Inr v \<Rightarrow>
               (case marshal x v of
                  Inl e \<Rightarrow> (None, Some e)
                | Inr bs \<Rightarrow> (Some bs, None))))"

text \<open>
  The body of the loop that starts the handlers: a task that carries an error is skipped;
  any other task calls its method, and a call through a nil method is a panic.
\<close>

definition run_task :: "'u ext \<Rightarrow> ('c, 'u) Server \<Rightarrow> ('c, 'u) task \<Rightarrow> panic + ('c, 'u) task" where
  "run_task x s t =
     (if task_err t \<noteq> None then Inr t
      else (case task_m t of
              None \<Rightarrow> Inl NilDereference
            | Some m \<Rightarrow>
                (let (v, e) = dispatch x s m
                       \<lparr>Request_id = ID (task_req t), Request_method = M (task_req t),
                        Request_params = P (task_req t)\<rparr>
                 in Inr (t\<lparr>task_val := v, task_err := e\<rparr>))))"

fun run_tasks :: "'u ext \<Rightarrow> ('c, 'u) Server \<Rightarrow> ('c, 'u) tasks \<Rightarrow> panic + ('c, 'u) tasks" where
  "run_tasks x s [] = Inr []"
| "run_tasks x s (t # ts) =
     (case run_task x s t of
        Inl p \<Rightarrow> Inl p
      | Inr t' \<Rightarrow> (case run_tasks x s ts of Inl p \<Rightarrow> Inl p | Inr ts' \<Rightarrow> Inr (t' # ts')))"

definition response :: "'u ext \<Rightarrow> ('c, 'u) task \<Rightarrow> jresponse" where
  "response x t =
     (let rsp = \<lparr>rsp_V = Version, rsp_ID = ID (task_req t), rsp_E = None, rsp_R = None\<rparr>
      in case task_err t of
           None \<Rightarrow> rsp\<lparr>rsp_R := task_val t\<rparr>
         | Some (ErrorP c m d) \<Rightarrow> rsp\<lparr>rsp_E := Some (tojerror c m d)\<rparr>
         | Some (CodeE c) \<Rightarrow> rsp\<lparr>rsp_E := Some (jerrorf c (code_text x c))\<rparr>
         | Some (Plain e) \<Rightarrow>
             rsp\<lparr>rsp_E := Some (jerrorf E_InternalError (''internal error: '' @ error_text e))\<rparr>)"

fun responses :: "'u ext \<Rightarrow> ('c, 'u) tasks \<Rightarrow> jresponses" where
  "responses x [] = []"
| "responses x (t # ts) =
     (if ID (task_req t) = None then responses x ts else response x t # responses x ts)"

text \<open>
  The channel that the returned function captured is the one of the server at that time.
  When the server has been stopped since, \<open>stop\<close> has closed that channel before it
  cleared the field, so the captured channel is a closed one.
\<close>

definition captured :: "('c, 'u) Server \<Rightarrow> Channel" where
  "captured s = (case ch s of Some c \<Rightarrow> c | None \<Rightarrow> \<lparr>sent = [], closed = True\<rparr>)"

text \<open>
  The function that \<open>nextRequest\<close> returns, applied to the state of the server at the
  time it runs: it runs the tasks, collects the responses and, when there are any, writes
  them under the lock. \<open>cap\<close> tells whether the captured channel was set. The result is
  the error of the write, the responses and the new state.
\<close>

definition complete ::
  "'u ext \<Rightarrow> ('c, 'u) tasks \<Rightarrow> bool \<Rightarrow> ('c, 'u) Server
     \<Rightarrow> panic + (error option \<times> jresponses \<times> ('c, 'u) Server)" where
  "complete x ts cap s =
     (case run_tasks x s ts of
        Inl p \<Rightarrow> Inl p
      | Inr ts' \<Rightarrow>
          (let rsps = responses x ts'
           in if rsps \<noteq> [] then
                (if \<not> cap then Inl NilDereference
                 else (let (nw, e, c) = encode x (captured s) rsps
                       in case info s of
                            None \<Rightarrow> Inl NilDereference
                          | Some i \<Rightarrow>
                              Inr (e, rsps,
                                   s\<lparr>ch := (if ch s = None then None else Some c),
                                     info := Some (i\<lparr>BytesOut := BytesOut i + nw\<rparr>)\<rparr>)))
              else Inr (None, rsps, s)))"

subsection \<open>Shutdown: \<open>stop\<close>\<close>

text \<open>
  The loop of \<open>stop\<close> over the queue, from \<open>cur\<close> up to \<open>en\<close> (the \<open>end\<close> of the
  source). Reading \<open>cur.Value\<close> through a nil pointer is a panic.
\<close>

function stop_walk :: "nat option \<Rightarrow> nat option \<Rightarrow> jrequests List \<Rightarrow> panic + jrequests List" where
  "stop_walk cur en l =
     (if cur = en then Inr l
      else (case cur of
              None \<Rightarrow> Inl NilDereference
            | Some e \<Rightarrow>
                (case vals l e of
                   None \<Rightarrow> Inl NilDereference
                 | Some b \<Rightarrow>
                     (let keep = filter (\<lambda>req. ID req \<noteq> None) b;
                          l1 = (if keep \<noteq> [] then PushBack l keep else l);
                          l2 = Remove l1 e
                      in stop_walk (Next l2 e) en l2))))"
  by pat_completeness auto
termination
proof -
  have absent: "e \<notin> set xs \<Longrightarrow> successor e xs = None" for e :: nat and xs
    by (induction e xs rule: successor.induct) auto
  show ?thesis
    by (relation "measure (\<lambda>(cur, en, l). case cur of None \<Rightarrow> 0 | Some _ \<Rightarrow> Suc 0)")
       (auto simp: Next_def Remove_def absent)
qed

declare stop_walk.simps [simp del]

definition Close :: "Channel \<Rightarrow> Channel" where
  "Close c = c\<lparr>closed := True\<rparr>"

definition stop :: "('c, 'u) Server \<Rightarrow> error \<Rightarrow> panic + ('c, 'u) Server" where
  "stop s e =
     (case ch s of
        None \<Rightarrow> Inr s
      | Some c \<Rightarrow>
          (case stop_walk (Front (inq s)) (Back (inq s)) (inq s) of
             Inl p \<Rightarrow> Inl p
           | Inr l \<Rightarrow> Inr (s\<lparr>inq := l, err := Some e, ch := None\<rparr>)))"

subsection \<open>The receive loop: \<open>read\<close>\<close>


text \<open>\<open>pushError\<close> writes one error response; the send through a nil channel is a panic.\<close>

definition pushError ::
  "'u ext \<Rightarrow> ('c, 'u) Server \<Rightarrow> RawMessage \<Rightarrow> jerror \<Rightarrow> panic + ('c, 'u) Server" where
  "pushError x s rid jerr =
     (case ch s of
        None \<Rightarrow> Inl NilDereference
      | Some c \<Rightarrow>
          (let (nw, e, c') = encode x c [\<lparr>rsp_V = Version, rsp_ID = rid, rsp_E = Some jerr, rsp_R = None\<rparr>]
           in case info s of
                None \<Rightarrow> Inl NilDereference
              | Some i \<Rightarrow> Inr (s\<lparr>ch := Some c', info := Some (i\<lparr>BytesOut := BytesOut i + nw\<rparr>)\<rparr>)))"



text \<open>The condition of the first test of the loop: the normalised id is not empty and is in the set.\<close>

definition duplicate :: "'u ext \<Rightarrow> ('c, 'u) Server \<Rightarrow> jrequest \<Rightarrow> bool" where
  "duplicate x s req =
     (string_of (fixID x (ID req)) \<noteq> [] \<and> string_of (fixID x (ID req)) \<in> used s)"

section \<open>The header framing\<close>

subsection \<open>Bytes, readers and writers\<close>

definition CR :: char where "CR = CHR 0x0D"
definition LF :: char where "LF = CHR 0x0A"

text \<open>
  The reading side of a channel is a \<open>bufio.Reader\<close> over the reader given to the
  framing: the bytes that are still to come, and the error that the source reports once
  they are used up (\<open>io.EOF\<close> at the end of the stream). \<open>ReadString\<close> returns the
  bytes up to and including the delimiter, or all the bytes left together with the error
  of the source when there is no delimiter. \<open>ReadFull\<close> returns exactly \<open>n\<close> bytes, or
  an error: that of the source, with \<open>io.ErrUnexpectedEOF\<close> in place of \<open>io.EOF\<close> when
  some bytes were read.
\<close>

record reader =
  pending :: string
  fail :: plain

definition ErrUnexpectedEOF :: plain where
  "ErrUnexpectedEOF = ErrorString ''unexpected EOF''"

definition ReadString :: "reader \<Rightarrow> char \<Rightarrow> string \<times> plain option \<times> reader" where
  "ReadString r delim =
     (if delim \<in> set (pending r) then
        (takeWhile (\<lambda>c. c \<noteq> delim) (pending r) @ [delim], None,
         r\<lparr>pending := tl (dropWhile (\<lambda>c. c \<noteq> delim) (pending r))\<rparr>)
      else (pending r, Some (fail r), r\<lparr>pending := []\<rparr>))"

definition ReadFull :: "reader \<Rightarrow> nat \<Rightarrow> string \<times> plain option \<times> reader" where
  "ReadFull r n =
     (if n \<le> length (pending r) then
        (take n (pending r), None, r\<lparr>pending := drop n (pending r)\<rparr>)
      else (pending r,
            Some (if pending r \<noteq> [] \<and> fail r = EOF then ErrUnexpectedEOF else fail r),
            r\<lparr>pending := []\<rparr>))"

text \<open>
  The writing side is an \<open>io.WriteCloser\<close>: the bytes written so far, and the error
  that a write reports, if the sink is broken.
\<close>

record writer =
  written :: string
  broken :: "plain option"

definition Write :: "writer \<Rightarrow> string \<Rightarrow> plain option \<times> writer" where
  "Write w bs =
     (case broken w of
        Some e \<Rightarrow> (Some e, w)
      | None \<Rightarrow> (None, w\<lparr>written := written w @ bs\<rparr>))"

subsection \<open>The functions of \<open>strings\<close> and \<open>strconv\<close>\<close>

text \<open>\<open>strings.TrimRight\<close> removes the trailing bytes that are in the cutset.\<close>

definition TrimRight :: "string \<Rightarrow> string \<Rightarrow> string" where
  "TrimRight s cutset = rev (dropWhile (\<lambda>c. c \<in> set cutset) (rev s))"

text \<open>
  \<open>strings.SplitN(line, ":", 2)\<close> gives two parts, the text before the first colon and
  the text after it, or the line alone when it has no colon (\<open>None\<close>).
\<close>

definition SplitN2 :: "string \<Rightarrow> (string \<times> string) option" where
  "SplitN2 line =
     (if CHR '':'' \<in> set line then
        Some (takeWhile (\<lambda>c. c \<noteq> CHR '':'') line, tl (dropWhile (\<lambda>c. c \<noteq> CHR '':'') line))
      else None)"

text \<open>
  \<open>strings.ToLower\<close> maps the letters A to Z of a string of ASCII bytes to lower case.
  A string with a byte outside ASCII is mapped rune by rune through the Unicode tables,
  which are a parameter \<open>lo\<close> of the model.
\<close>

definition lower :: "char \<Rightarrow> char" where
  "lower c =
     (if (65 :: nat) \<le> of_char c \<and> of_char c \<le> (90 :: nat)
      then char_of (of_char c + (32 :: nat)) else c)"

definition ToLower :: "(string \<Rightarrow> string) \<Rightarrow> string \<Rightarrow> string" where
  "ToLower lo s = (if list_all (\<lambda>c. of_char c < (128 :: nat)) s then map lower s else lo s)"

text \<open>
  \<open>strings.TrimSpace\<close> removes the leading and trailing white space, as Unicode defines
  it: the six ASCII characters, and the code points U+0085, U+00A0, U+1680, U+2000 to
  U+200A, U+2028, U+2029, U+202F, U+205F and U+3000 in their UTF-8 encoding.
  \<open>space_width\<close> is the number of bytes of the white space character at the head of a
  string (0 when there is none), \<open>space_width_rev\<close> the same at the end of a string that
  is given reversed.
\<close>

definition ascii_space :: "char \<Rightarrow> bool" where
  "ascii_space c =
     (c = CHR 0x09 \<or> c = CHR 0x0A \<or> c = CHR 0x0B \<or> c = CHR 0x0C \<or> c = CHR 0x0D \<or> c = CHR 0x20)"

fun space_width :: "string \<Rightarrow> nat" where
  "space_width [] = 0"
| "space_width [a] = (if ascii_space a then 1 else 0)"
| "space_width [a, b] =
     (if ascii_space a then 1
      else if a = CHR 0xC2 \<and> (b = CHR 0x85 \<or> b = CHR 0xA0) then 2 else 0)"
| "space_width (a # b # c # cs) =
     (if ascii_space a then 1
      else if a = CHR 0xC2 \<and> (b = CHR 0x85 \<or> b = CHR 0xA0) then 2
      else if a = CHR 0xE1 \<and> b = CHR 0x9A \<and> c = CHR 0x80 then 3
      else if a = CHR 0xE2 \<and> b = CHR 0x80 \<and>
              (((128 :: nat) \<le> of_char c \<and> of_char c \<le> (138 :: nat)) \<or>
               c = CHR 0xA8 \<or> c = CHR 0xA9 \<or> c = CHR 0xAF) then 3
      else if a = CHR 0xE2 \<and> b = CHR 0x81 \<and> c = CHR 0x9F then 3
      else if a = CHR 0xE3 \<and> b = CHR 0x80 \<and> c = CHR 0x80 then 3
      else 0)"

fun space_width_rev :: "string \<Rightarrow> nat" where
  "space_width_rev [] = 0"
| "space_width_rev [a] = (if ascii_space a then 1 else 0)"
| "space_width_rev [b, a] =
     (if ascii_space b then 1
      else if a = CHR 0xC2 \<and> (b = CHR 0x85 \<or> b = CHR 0xA0) then 2 else 0)"
| "space_width_rev (c # b # a # cs) =
     (if ascii_space c then 1
      else if b = CHR 0xC2 \<and> (c = CHR 0x85 \<or> c = CHR 0xA0) then 2
      else if a = CHR 0xE1 \<and> b = CHR 0x9A \<and> c = CHR 0x80 then 3
      else if a = CHR 0xE2 \<and> b = CHR 0x80 \<and>
              (((128 :: nat) \<le> of_char c \<and> of_char c \<le> (138 :: nat)) \<or>
               c = CHR 0xA8 \<or> c = CHR 0xA9 \<or> c = CHR 0xAF) then 3
      else if a = CHR 0xE2 \<and> b = CHR 0x81 \<and> c = CHR 0x9F then 3
      else if a = CHR 0xE3 \<and> b = CHR 0x80 \<and> c = CHR 0x80 then 3
      else 0)"

function trim_left :: "string \<Rightarrow> string" where
  "trim_left s = (if space_width s = 0 then s else trim_left (drop (space_width s) s))"
  by pat_completeness auto
termination
  by (relation "measure length") (auto intro: Nat.diff_less simp: Suc_le_eq)

declare trim_left.simps [simp del]

function trim_right_rev :: "string \<Rightarrow> string" where
  "trim_right_rev s =
     (if space_width_rev s = 0 then s else trim_right_rev (drop (space_width_rev s) s))"
  by pat_completeness auto
termination
  by (relation "measure length") (auto intro: Nat.diff_less simp: Suc_le_eq)

declare trim_right_rev.simps [simp del]

definition TrimSpace :: "string \<Rightarrow> string" where
  "TrimSpace s = rev (trim_right_rev (rev (trim_left s)))"

text \<open>
  \<open>strconv.Itoa\<close> writes an integer in decimal digits. \<open>strconv.Atoi\<close> reads an
  optional sign and at least one decimal digit, and fails on anything else and on a value
  outside the 64-bit range of \<open>int\<close> (\<open>None\<close> is the error).
\<close>

definition digit :: "nat \<Rightarrow> char" where
  "digit d = char_of (48 + d)"

function decimal :: "nat \<Rightarrow> string" where
  "decimal n = (if n < 10 then [digit n] else decimal (n div 10) @ [digit (n mod 10)])"
  by pat_completeness auto
termination
  by (relation "measure id") auto

declare decimal.simps [simp del]

definition Itoa :: "int \<Rightarrow> string" where
  "Itoa i = (if i < 0 then CHR ''-'' # decimal (nat (- i)) else decimal (nat i))"

definition is_digit :: "char \<Rightarrow> bool" where
  "is_digit c = ((48 :: nat) \<le> of_char c \<and> of_char c \<le> (57 :: nat))"

definition digits_value :: "string \<Rightarrow> nat" where
  "digits_value ds = foldl (\<lambda>n c. n * 10 + (of_char c - 48)) 0 ds"

definition Atoi :: "string \<Rightarrow> int option" where
  "Atoi s =
     (let neg = (s \<noteq> [] \<and> hd s = CHR ''-'');
          ds = (if s \<noteq> [] \<and> (hd s = CHR ''-'' \<or> hd s = CHR ''+'') then tl s else s);
          v = (if neg then - int (digits_value ds) else int (digits_value ds))
      in if ds = [] \<or> \<not> list_all is_digit ds then None
         else if v < - (2 ^ 63) \<or> 2 ^ 63 \<le> v then None
         else Some v)"

subsection \<open>\<open>Header\<close>, \<open>Send\<close> and \<open>Recv\<close>\<close>

text \<open>
  The fields of \<open>hdr\<close>; the buffer \<open>buf\<close> is scratch space of \<open>Send\<close> and is empty
  between calls.
\<close>

record hdr =
  mtype :: string
  ctype :: string
  wc :: writer
  rd :: reader

definition Header :: "string \<Rightarrow> reader \<Rightarrow> writer \<Rightarrow> hdr" where
  "Header mimeType r w =
     \<lparr>mtype = mimeType,
      ctype = (if mimeType \<noteq> [] then ''Content-Type: '' @ mimeType @ [CR, LF] else []),
      wc = w, rd = r\<rparr>"

text \<open>The bytes that \<open>Send\<close> collects in its buffer for a message.\<close>

definition frame :: "hdr \<Rightarrow> string \<Rightarrow> string" where
  "frame h msg =
     (if ctype h \<noteq> [] then ctype h else []) @
     ''Content-Length: '' @ Itoa (int (length msg)) @ [CR, LF, CR, LF] @ msg"

definition Send :: "hdr \<Rightarrow> string \<Rightarrow> plain option \<times> hdr" where
  "Send h msg = (let (e, w) = Write (wc h) (frame h msg) in (e, h\<lparr>wc := w\<rparr>))"

text \<open>The loop of \<open>Recv\<close> that reads the header lines into the map \<open>p\<close>.\<close>

function read_headers ::
  "(string \<Rightarrow> string) \<Rightarrow> (string \<Rightarrow> string option) \<Rightarrow> reader
     \<Rightarrow> (plain + (string \<Rightarrow> string option)) \<times> reader" where
  "read_headers lo p r =
     (case ReadString r LF of
        (raw, e, r') \<Rightarrow>
          if e \<noteq> None \<and> \<not> (e = Some EOF \<and> raw \<noteq> []) then (Inl (the e), r')
          else (let line = TrimRight raw [CR, LF]
                in if line = [] then (Inr p, r')
                   else (case SplitN2 line of
                           Some (k, v) \<Rightarrow> read_headers lo (p(ToLower lo k \<mapsto> TrimSpace v)) r'
                         | None \<Rightarrow> (Inl (ErrorString ''invalid header line''), r'))))"
  by pat_completeness auto
termination
proof -
  have shorter: "length (dropWhile P xs) - Suc 0 < length xs" if "x \<in> set xs"
    for P and x :: char and xs
    using that length_dropWhile_le [of P xs] by (cases xs) auto
  show ?thesis
    by (relation "measure (\<lambda>(lo, p, r). length (pending r))")
       (auto simp: ReadString_def shorter split: if_splits)
qed

declare read_headers.simps [simp del]

text \<open>
  The rest of \<open>Recv\<close>: the checks of the two header fields, the allocation of the
  buffer and the reading of the body. \<open>make([]byte, size)\<close> panics when the runtime does
  not allocate a slice of that length; the largest length that it allocates is the
  parameter \<open>maxAlloc\<close> of the model. A panic is \<open>Inl\<close>; a return of \<open>Recv\<close>, with
  its error or its data and the new state of the channel, is \<open>Inr\<close>.
\<close>

definition Recv_body ::
  "nat \<Rightarrow> hdr \<Rightarrow> (string \<Rightarrow> string option) \<Rightarrow> reader \<Rightarrow> panic + ((plain + string) \<times> hdr)" where
  "Recv_body maxAlloc h p r =
     (if (case p ''content-type'' of Some ct \<Rightarrow> ct \<noteq> mtype h | None \<Rightarrow> False) then
        Inr (Inl (ErrorString ''invalid content-type''), h\<lparr>rd := r\<rparr>)
      else (case p ''content-length'' of
              None \<Rightarrow> Inr (Inl (ErrorString ''missing required content-length''), h\<lparr>rd := r\<rparr>)
            | Some clen \<Rightarrow>
                (case Atoi clen of
                   None \<Rightarrow> Inr (Inl (ErrorString ''invalid content-length''), h\<lparr>rd := r\<rparr>)
                 | Some n \<Rightarrow>
                     if n < 0 then
                       Inr (Inl (ErrorString ''invalid content-length''), h\<lparr>rd := r\<rparr>)
                     else if maxAlloc < nat n then Inl MakesliceLenOutOfRange
                     else (case ReadFull r (nat n) of
                             (data, Some e, r') \<Rightarrow> Inr (Inl e, h\<lparr>rd := r'\<rparr>)
                           | (data, None, r') \<Rightarrow> Inr (Inr data, h\<lparr>rd := r'\<rparr>)))))"

definition Recv ::
  "(string \<Rightarrow> string) \<Rightarrow> nat \<Rightarrow> hdr \<Rightarrow> panic + ((plain + string) \<times> hdr)" where
  "Recv lo maxAlloc h =
     (case read_headers lo Map.empty (rd h) of
        (Inl e, r) \<Rightarrow> Inr (Inl e, h\<lparr>rd := r\<rparr>)
      | (Inr p, r) \<Rightarrow> Recv_body maxAlloc h p r)"

text \<open>
  A header value is numeric when it is an optional sign followed by at least one decimal
  digit.
\<close>

definition numeric :: "string \<Rightarrow> bool" where
  "numeric s =
     (case s of
        [] \<Rightarrow> False
      | c # cs \<Rightarrow>
          if c = CHR ''+'' \<or> c = CHR ''-'' then cs \<noteq> [] \<and> list_all is_digit cs
          else list_all is_digit s)"

text \<open>
  A header value is a negative number when it is a minus sign followed by decimal digits
  that are not all zero.
\<close>

definition negative :: "string \<Rightarrow> bool" where
  "negative s =
     (case s of
        [] \<Rightarrow> False
      | c # cs \<Rightarrow> c = CHR ''-'' \<and> cs \<noteq> [] \<and> list_all is_digit cs \<and> digits_value cs \<noteq> 0)"

section \<open>The raw framing\<close>

subsection \<open>The scanner of \<open>encoding/json\<close>\<close>

text \<open>
  \<open>Recv\<close> of the raw framing asks a \<open>json.Decoder\<close> for the next value of the stream.
  The decoder finds the end of the value with the scanner of \<open>encoding/json\<close>, a state
  machine that is fed one byte at a time. Its state is the step function to call on the
  next byte (\<open>step\<close>) and the stack of the objects and arrays that are open
  (\<open>parseState\<close>); each step returns a code. The model follows the scanner of Go 1.13
  and 1.14 (the limit of 10000 on the nesting depth of Go 1.15 is left out), and keeps of a
  syntax error the context it names.
\<close>

datatype step =
    BeginValueOrEmpty | BeginValue | BeginStringOrEmpty | BeginString | EndValue | EndTop
  | InString | InStringEsc | InStringEscU | InStringEscU1 | InStringEscU12 | InStringEscU123
  | Neg | St0 | St1 | Dot | Dot0 | StE | ESign | E0
  | StT | Tr | Tru | StF | Fa | Fal | Fals | StN | Nu | Nul
  | StError

datatype parse = parseObjectKey | parseObjectValue | parseArrayValue

datatype code =
    scanContinue | scanBeginLiteral | scanBeginObject | scanObjectKey | scanObjectValue
  | scanEndObject | scanBeginArray | scanArrayValue | scanEndArray | scanSkipSpace
  | scanEnd | scanError

record scanner =
  step :: step
  parseState :: "parse list"
  serr :: "string option"




definition error :: "scanner \<Rightarrow> string \<Rightarrow> code \<times> scanner" where
  "error s context = (scanError, s\<lparr>step := StError, serr := Some context\<rparr>)"























subsection \<open>The decoder and the channel\<close>




text \<open>
  The raw channel: the two sides of \<open>rwc\<close> and the decoder, of which the model keeps
  the error, since a decoder that has failed returns its error on every later call.
  \<open>Send\<close> writes the message as it is. \<open>Recv\<close> decodes the next value into a
  \<open>json.RawMessage\<close>, which takes the bytes of the value without the white space before
  it.
\<close>

record raw =
  rwc_r :: reader
  rwc_w :: writer
  dec_err :: "plain option"




subsection \<open>JSON texts\<close>

text \<open>
  The values that the claims about the raw framing speak of: JSON values with integer
  numbers, given by their digits, and \<open>render\<close>, their text in the compact form that an
  encoder writes, without white space. \<open>plain_json\<close> holds when the numbers are integer
  literals of JSON (no leading zero) and the strings have no quote, no backslash and no
  control character, so that they are written without escapes.
\<close>

datatype json =
    JNull
  | JBool bool
  | JNum string
  | JStr string
  | JArr "json list"
  | JObj "(string \<times> json) list"








subsection \<open>Notions for the proofs about the scanner\<close>





section \<open>Sample inputs\<close>

text \<open>A small environment, server and requests, on which the theorems are instantiated.\<close>

definition sample_call :: "string \<Rightarrow> string \<Rightarrow> string \<Rightarrow> jrequest" where
  "sample_call v i m = \<lparr>V = v, ID = Some i, M = m, P = None\<rparr>"

definition sample_note :: "string \<Rightarrow> jrequest" where
  "sample_note m = \<lparr>V = ''2.0'', ID = None, M = m, P = None\<rparr>"

definition sample_payload :: string where
  \<open>sample_payload = ''{"jsonrpc":"2.0","id":1,"method":"Math.Add"}''\<close>

text \<open>
  The sample decoder knows four payloads: a call, the empty batch, an array with a number
  where a request is expected (a type error) and a text that is not JSON.
\<close>

definition sample_unmarshal :: "string \<Rightarrow> jrequests \<times> error option" where
  "sample_unmarshal bits =
     (if bits = sample_payload then ([sample_call ''2.0'' ''1'' ''Math.Add''], None)
      else if bits = ''[]'' then ([], None)
      else if bits = ''[1]'' then
        ([], Some (Plain (UnmarshalTypeError ''json: cannot unmarshal number into Go value'')))
      else ([], Some (Plain (SyntaxError ''invalid character''))))"

definition sample_ext :: "unit ext" where
  "sample_ext =
     \<lparr>fixID = (\<lambda>r. r), fmt_q = (\<lambda>t. t), code_text = (\<lambda>c. ''code''),
      unmarshal = sample_unmarshal, marshal = (\<lambda>v. Inr ''null''), wire = (\<lambda>rsps. ''[]'')\<rparr>"

definition sample_handler :: "(unit, unit) Method" where
  "sample_handler ctx req = Inr (User ())"

definition sample_server :: "(unit, unit) Server" where
  "sample_server =
     \<lparr>mux = \<lparr>Assign = (\<lambda>name. if name = ''Math.Add'' then Some sample_handler else None),
             Names = [''Math.Add'']\<rparr>,
      allow1 = False,
      reqctx = (\<lambda>req. Inr ()),
      err = None,
      inq = New,
      ch = Some \<lparr>sent = [], closed = False\<rparr>,
      info = Some \<lparr>Methods = [], Requests = 0, BytesIn = 0, BytesOut = 0\<rparr>,
      used = {}\<rparr>"

definition sample_batch :: jrequests where
  "sample_batch =
     [sample_call ''2.0'' ''1'' ''Math.Add'', sample_note ''Math.Add'', sample_call ''2.0'' ''2'' ''Nope'']"

definition sample_failing :: "error \<Rightarrow> (unit, unit) Method" where
  "sample_failing e ctx req = Inl e"

definition sample_task :: "(unit, unit) Method \<Rightarrow> (unit, unit) task" where
  "sample_task m =
     \<lparr>task_m = Some m, task_req = sample_call ''2.0'' ''1'' ''Math.Add'', task_val = None,
      task_err = None\<rparr>"

definition sample_queued :: "(unit, unit) Server" where
  "sample_queued = sample_server\<lparr>inq := queue_of [[sample_call ''2.0'' ''1'' ''Math.Add'']]\<rparr>"


text \<open>
  Sample channels: a reader over given bytes that ends with \<open>EOF\<close>, a writer that works,
  and a header channel that is to receive the given header lines, an empty line and the
  body "hi".
\<close>

definition sample_reader :: "string \<Rightarrow> reader" where
  "sample_reader bs = \<lparr>pending = bs, fail = EOF\<rparr>"

definition sample_writer :: writer where
  "sample_writer = \<lparr>written = [], broken = None\<rparr>"

definition sample_lines :: "string list \<Rightarrow> string \<Rightarrow> string" where
  "sample_lines ls body = concat (map (\<lambda>l. l @ [CR, LF]) ls) @ [CR, LF] @ body"

definition sample_hdr :: "string \<Rightarrow> string list \<Rightarrow> hdr" where
  "sample_hdr mime ls = Header mime (sample_reader (sample_lines ls ''hi'')) sample_writer"

definition sample_parsed :: "string list \<Rightarrow> string \<Rightarrow> string option" where
  "sample_parsed ls =
     projr (fst (read_headers (\<lambda>s. s) Map.empty (sample_reader (sample_lines ls ''hi''))))"

text \<open>A sample limit on the length of a slice.\<close>

definition sample_maxAlloc :: nat where
  "sample_maxAlloc = 4096"

section \<open>Properties of the validation\<close>

lemma versionOK_used [simp]: "versionOK (s\<lparr>used := u\<rparr>) v = versionOK s v"
  by (simp add: versionOK_def)

lemma assign_used [simp]: "assign (s\<lparr>used := u\<rparr>) name = assign s name"
  by (simp add: assign_def split: option.splits)

lemma check_duplicate:
  "duplicate x s req \<Longrightarrow>
   check x s req =
     (\<lparr>task_m = None, task_req = req\<lparr>ID := fixID x (ID req)\<rparr>, task_val = None,
       task_err = Some (ErrorP (- 32600)
          (''duplicate request id '' @ fmt_q x (string_of (fixID x (ID req)))) None)\<rparr>, s)"
  by (simp add: check_def duplicate_def Let_def Errorf_def E_InvalidRequest_def)

lemma check_version:
  "\<not> duplicate x s req \<Longrightarrow> \<not> versionOK s (V req) \<Longrightarrow>
   fst (check x s req) =
     \<lparr>task_m = None, task_req = req\<lparr>ID := fixID x (ID req)\<rparr>, task_val = None,
       task_err = Some (ErrorP (- 32600)
          (''incorrect version marker '' @ fmt_q x (V req)) None)\<rparr>"
  by (auto simp add: check_def duplicate_def Let_def Errorf_def E_InvalidRequest_def)

lemma check_method_empty:
  "\<not> duplicate x s req \<Longrightarrow> versionOK s (V req) \<Longrightarrow> M req = [] \<Longrightarrow>
   fst (check x s req) =
     \<lparr>task_m = None, task_req = req\<lparr>ID := fixID x (ID req)\<rparr>, task_val = None,
       task_err = Some (ErrorP (- 32600) ''empty method name'' None)\<rparr>"
  by (auto simp add: check_def duplicate_def Let_def Errorf_def E_InvalidRequest_def)

lemma check_not_found:
  "\<not> duplicate x s req \<Longrightarrow> versionOK s (V req) \<Longrightarrow> M req \<noteq> [] \<Longrightarrow> assign s (M req) = None \<Longrightarrow>
   fst (check x s req) =
     \<lparr>task_m = None, task_req = req\<lparr>ID := fixID x (ID req)\<rparr>, task_val = None,
       task_err = Some (ErrorP (- 32601) (''no such method '' @ fmt_q x (M req)) None)\<rparr>"
  by (auto simp add: check_def duplicate_def Let_def Errorf_def E_MethodNotFound_def)

lemma check_runnable:
  "\<not> duplicate x s req \<Longrightarrow> versionOK s (V req) \<Longrightarrow> M req \<noteq> [] \<Longrightarrow> assign s (M req) = Some m \<Longrightarrow>
   fst (check x s req) =
     \<lparr>task_m = Some m, task_req = req\<lparr>ID := fixID x (ID req)\<rparr>, task_val = None,
       task_err = None\<rparr>"
  by (auto simp add: check_def duplicate_def Let_def)


lemma check_task_req: "task_req (fst (check x s req)) = req\<lparr>ID := fixID x (ID req)\<rparr>"
  by (simp add: check_def Let_def split: option.splits)

lemma check_task_ready:
  "task_err (fst (check x s req)) = None \<Longrightarrow> task_m (fst (check x s req)) \<noteq> None"
  by (simp add: check_def Let_def Errorf_def split: option.splits if_splits)

lemma check_all_task_req:
  "map task_req (fst (check_all x s reqs)) = map (\<lambda>req. req\<lparr>ID := fixID x (ID req)\<rparr>) reqs"
proof (induction reqs arbitrary: s)
  case Nil
  then show ?case by simp
next
  case (Cons req reqs)
  obtain t s1 where c: "check x s req = (t, s1)" by (cases "check x s req")
  obtain ts s2 where cs: "check_all x s1 reqs = (ts, s2)" by (cases "check_all x s1 reqs")
  have "task_req t = req\<lparr>ID := fixID x (ID req)\<rparr>"
    using check_task_req [of x s req] c by simp
  moreover have "map task_req ts = map (\<lambda>req. req\<lparr>ID := fixID x (ID req)\<rparr>) reqs"
    using Cons.IH [of s1] cs by simp
  ultimately show ?case by (simp add: c cs)
qed

lemma check_all_ready:
  "t \<in> set (fst (check_all x s reqs)) \<Longrightarrow> task_err t = None \<Longrightarrow> task_m t \<noteq> None"
proof (induction reqs arbitrary: s)
  case Nil
  then show ?case by simp
next
  case (Cons req reqs)
  obtain t1 s1 where c: "check x s req = (t1, s1)" by (cases "check x s req")
  obtain ts s2 where cs: "check_all x s1 reqs = (ts, s2)" by (cases "check_all x s1 reqs")
  from Cons.prems(1) have "t = t1 \<or> t \<in> set ts" by (simp add: c cs)
  then show ?case
  proof
    assume "t = t1"
    then show ?thesis using check_task_ready [of x s req] c Cons.prems(2) by simp
  next
    assume "t \<in> set ts"
    then show ?thesis using Cons.IH [of s1] cs Cons.prems(2) by simp
  qed
qed

lemma run_task_req: "run_task x s t = Inr t' \<Longrightarrow> task_req t' = task_req t"
  by (auto simp: run_task_def Let_def split: if_splits option.splits prod.splits)

lemma run_task_returns: "task_err t = None \<longrightarrow> task_m t \<noteq> None \<Longrightarrow> \<exists>t'. run_task x s t = Inr t'"
  by (auto simp: run_task_def Let_def split: if_splits option.splits prod.splits)

lemma run_tasks_returns:
  "\<forall>t \<in> set ts. task_err t = None \<longrightarrow> task_m t \<noteq> None \<Longrightarrow>
   \<exists>ts'. run_tasks x s ts = Inr ts' \<and> map task_req ts' = map task_req ts"
proof (induction ts)
  case Nil
  then show ?case by simp
next
  case (Cons t ts)
  then obtain t' where t': "run_task x s t = Inr t'"
    using run_task_returns [of t x s] by auto
  from Cons obtain ts' where ts': "run_tasks x s ts = Inr ts'" "map task_req ts' = map task_req ts"
    by auto
  show ?case using t' ts' run_task_req [OF t'] by simp
qed

lemma response_ID: "rsp_ID (response x t) = ID (task_req t)"
  by (simp add: response_def Let_def split: option.splits error.splits)

lemma responses_IDs:
  "map rsp_ID (responses x ts) = filter (\<lambda>i. i \<noteq> None) (map (\<lambda>t. ID (task_req t)) ts)"
  by (induction ts) (simp_all add: response_ID)

lemma responses_length:
  "length (responses x ts) = length (filter (\<lambda>t. ID (task_req t) \<noteq> None) ts)"
  by (induction ts) simp_all

lemma dispatch_notification_error:
  "IsNotification rq \<Longrightarrow> reqctx s rq = Inr ctx \<Longrightarrow> m ctx rq = Inl e \<Longrightarrow>
   dispatch x s m rq = (None, None)"
  by (simp add: dispatch_def)

lemma complete_returns:
  assumes ready: "\<forall>t \<in> set ts. task_err t = None \<longrightarrow> task_m t \<noteq> None"
    and info: "info s = Some i"
    and ch: "ch s = Some c" "\<not> closed c"
  shows "\<exists>e rsps s'. complete x ts True s = Inr (e, rsps, s') \<and>
           map rsp_ID rsps = filter (\<lambda>i. i \<noteq> None) (map (\<lambda>t. ID (task_req t)) ts) \<and>
           (if rsps = [] then s' = s
            else ch s' = Some (c\<lparr>sent := sent c @ [rsps]\<rparr>))"
proof -
  from run_tasks_returns [OF ready, of x s]
  obtain ts' where ts': "run_tasks x s ts = Inr ts'" "map task_req ts' = map task_req ts"
    by blast
  have ids: "map (\<lambda>t. ID (task_req t)) ts' = map (\<lambda>t. ID (task_req t)) ts"
    using ts'(2) by (metis (mono_tags, lifting) list.map_comp comp_apply map_eq_conv)
  have rs: "map rsp_ID (responses x ts') = filter (\<lambda>i. i \<noteq> None) (map (\<lambda>t. ID (task_req t)) ts)"
    using responses_IDs [of x ts'] ids by simp
  show ?thesis
  proof (cases "responses x ts' = []")
    case True
    have "complete x ts True s = Inr (None, responses x ts', s)"
      by (simp add: complete_def ts'(1) True)
    moreover have "if responses x ts' = [] then s = s
                   else ch s = Some (c\<lparr>sent := sent c @ [responses x ts']\<rparr>)"
      by (simp add: True)
    ultimately show ?thesis using rs by blast
  next
    case False
    define s' where "s' = s\<lparr>ch := Some (c\<lparr>sent := sent c @ [responses x ts']\<rparr>),
      info := Some (i\<lparr>BytesOut := BytesOut i + int (length (wire x (responses x ts')))\<rparr>)\<rparr>"
    have "complete x ts True s = Inr (None, responses x ts', s')"
      by (simp add: complete_def ts'(1) False Let_def captured_def encode_def info ch s'_def)
    moreover have "if responses x ts' = [] then s' = s
                   else ch s' = Some (c\<lparr>sent := sent c @ [responses x ts']\<rparr>)"
      by (simp add: False s'_def)
    ultimately show ?thesis using rs by blast
  qed
qed

lemma run_tasks_append:
  "run_tasks x s pre = Inr pre' \<Longrightarrow> run_task x s t = Inr t' \<Longrightarrow> run_tasks x s post = Inr post' \<Longrightarrow>
   run_tasks x s (pre @ t # post) = Inr (pre' @ t' # post')"
  by (induction pre arbitrary: pre') (auto split: sum.splits)

lemma responses_append: "responses x (ts @ us) = responses x ts @ responses x us"
  by (induction ts) simp_all

lemma complete_writes:
  assumes "run_tasks x s ts = Inr ts'" and "responses x ts' \<noteq> []"
    and "info s = Some i" and "ch s = Some c" and "\<not> closed c"
  shows "complete x ts True s =
           Inr (None, responses x ts',
                s\<lparr>ch := Some (c\<lparr>sent := sent c @ [responses x ts']\<rparr>),
                  info := Some (i\<lparr>BytesOut := BytesOut i + int (length (wire x (responses x ts')))\<rparr>)\<rparr>)"
  using assms by (simp add: complete_def Let_def captured_def encode_def)

lemma complete_computes:
  assumes "run_tasks x s ts = Inr ts'" and "info s = Some i"
  shows "\<exists>e s'. complete x ts True s = Inr (e, responses x ts', s')"
  using assms by (simp add: complete_def Let_def split: prod.splits)

lemmas sample_defs = sample_ext_def sample_server_def sample_call_def sample_note_def
  duplicate_def versionOK_def assign_def Version_def string_of_def

section \<open>Properties of the queue and of \<open>stop\<close>\<close>

lemma stop_walk_done: "stop_walk cur cur l = Inr l"
  by (simp add: stop_walk.simps)

lemma stop_walk_nil: "en \<noteq> None \<Longrightarrow> stop_walk None en l = Inl NilDereference"
  by (cases en) (simp_all add: stop_walk.simps)

lemma successor_absent: "e \<notin> set xs \<Longrightarrow> successor e xs = None"
  by (induction e xs rule: successor.induct) auto

lemma Next_Remove: "Next (Remove l e) e = None"
  by (simp add: Next_def Remove_def successor_absent)

lemma stop_walk_step:
  "en \<noteq> None \<Longrightarrow> Some e \<noteq> en \<Longrightarrow> stop_walk (Some e) en l = Inl NilDereference"
  by (subst stop_walk.simps) (simp add: Let_def Next_Remove stop_walk_nil split: option.splits)

lemma stop_short:
  assumes "ch s = Some c" and "Len (inq s) \<le> 1"
  shows "stop s e = Inr (s\<lparr>err := Some e, ch := None\<rparr>)"
proof -
  have "Front (inq s) = Back (inq s)"
    using assms(2) by (cases "order (inq s)") (auto simp: Front_def Back_def Len_def)
  then show ?thesis
    using assms(1) by (simp add: stop_def stop_walk_done)
qed

lemma stop_long:
  assumes "ch s = Some c" and "order (inq s) = a # b # rest" and "distinct (order (inq s))"
  shows "stop s e = Inl NilDereference"
proof -
  have f: "Front (inq s) = Some a" and b: "Back (inq s) = Some (last (b # rest))"
    using assms(2) by (simp_all add: Front_def Back_def)
  have "last (b # rest) \<in> set (b # rest)" by (rule last_in_set) simp
  then have "a \<noteq> last (b # rest)" using assms(2,3) by auto
  then show ?thesis
    using assms(1) f b by (simp add: stop_def stop_walk_step)
qed

lemma order_PushBack: "order (PushBack l b) = order l @ [fresh l]"
  by (simp add: PushBack_def)

lemma fresh_PushBack: "fresh (PushBack l b) = Suc (fresh l)"
  by (simp add: PushBack_def)

lemma foldl_PushBack:
  "order (foldl PushBack l bs) = order l @ [fresh l ..< fresh l + length bs] \<and>
   fresh (foldl PushBack l bs) = fresh l + length bs"
proof (induction bs arbitrary: l)
  case Nil
  then show ?case by simp
next
  case (Cons b bs)
  show ?case
    using upt_conv_Cons [of "fresh l" "fresh l + Suc (length bs)"]
    by (simp add: Cons.IH [of "PushBack l b"] order_PushBack fresh_PushBack)
qed

lemma order_queue_of: "order (queue_of bs) = [0 ..< length bs]"
  using foldl_PushBack [of New bs] by (simp add: queue_of_def New_def)

lemma stop_queue_of:
  assumes "ch s = Some c" and "inq s = queue_of bs"
  shows "stop s e = (if length bs \<le> 1 then Inr (s\<lparr>err := Some e, ch := None\<rparr>)
                     else Inl NilDereference)"
proof (cases "length bs \<le> 1")
  case True
  then show ?thesis
    using stop_short [OF assms(1), of e] assms(2) by (simp add: Len_def order_queue_of)
next
  case False
  then obtain n where n: "length bs = Suc (Suc n)"
    using less_iff_Suc_add [of 1 "length bs"] by auto
  have "order (inq s) = 0 # Suc 0 # [Suc (Suc 0) ..< Suc (Suc n)]"
    by (simp add: assms(2) order_queue_of n upt_conv_Cons)
  moreover have "distinct (order (inq s))"
    by (simp add: assms(2) order_queue_of)
  ultimately show ?thesis
    using stop_long [OF assms(1), of 0 "Suc 0" "[Suc (Suc 0) ..< Suc (Suc n)]" e] False by simp
qed

text \<open>No operation of the server takes an id out of the set \<open>used\<close>.\<close>

lemma complete_used: "complete x ts cap s = Inr (e, rsps, s') \<Longrightarrow> used s' = used s"
  by (auto simp: complete_def Let_def split: sum.splits if_splits prod.splits option.splits)

lemma pushError_used: "pushError x s rid jerr = Inr s' \<Longrightarrow> used s' = used s"
  by (auto simp: pushError_def Let_def split: option.splits prod.splits)

lemma stop_used: "stop s e = Inr s' \<Longrightarrow> used s' = used s"
  by (auto simp: stop_def split: option.splits sum.splits)

lemma check_used_grows: "used s \<subseteq> used (snd (check x s req))"
  by (auto simp: check_def Let_def split: option.splits)




section \<open>The claims about validation and responses\<close>

text \<open>
  Claim C6. In the validation of a request, an empty version is accepted exactly when the
  server allows version 1 requests, and a version that is not empty must be "2.0"; a
  request with a version that is not accepted, or with an empty method name, is marked
  Invalid request (code -32600), whatever the earlier test on its id found. A request that
  passed the tests on its id, its version and its method name, and whose method \<open>assign\<close>
  does not resolve, is marked Method not found (code -32601); when \<open>assign\<close> resolves it,
  the task carries no error and holds the method.
\<close>

theorem version_method_validation:
  "(versionOK s [] \<longleftrightarrow> allow1 s) \<and>
   (v \<noteq> [] \<longrightarrow> (versionOK s v \<longleftrightarrow> v = ''2.0'')) \<and>
   (\<not> versionOK s (V req) \<longrightarrow>
      (\<exists>msg. task_err (fst (check x s req)) = Some (ErrorP (- 32600) msg None)) \<and>
      task_m (fst (check x s req)) = None) \<and>
   (M req = [] \<longrightarrow>
      (\<exists>msg. task_err (fst (check x s req)) = Some (ErrorP (- 32600) msg None)) \<and>
      task_m (fst (check x s req)) = None) \<and>
   (\<not> duplicate x s req \<and> versionOK s (V req) \<and> M req \<noteq> [] \<and> assign s (M req) = None \<longrightarrow>
      (\<exists>msg. task_err (fst (check x s req)) = Some (ErrorP (- 32601) msg None)) \<and>
      task_m (fst (check x s req)) = None) \<and>
   (\<not> duplicate x s req \<and> versionOK s (V req) \<and> M req \<noteq> [] \<and> assign s (M req) = Some m \<longrightarrow>
      task_err (fst (check x s req)) = None \<and> task_m (fst (check x s req)) = Some m)"
proof -
  have v1: "versionOK s [] \<longleftrightarrow> allow1 s"
    by (simp add: versionOK_def)
  have v2: "v \<noteq> [] \<longrightarrow> (versionOK s v \<longleftrightarrow> v = ''2.0'')"
    by (simp add: versionOK_def Version_def)
  have bad_version: "(\<exists>msg. task_err (fst (check x s req)) = Some (ErrorP (- 32600) msg None)) \<and>
      task_m (fst (check x s req)) = None" if "\<not> versionOK s (V req)"
  proof (cases "duplicate x s req")
    case True
    then show ?thesis by (simp add: check_duplicate)
  next
    case False
    with that show ?thesis by (simp add: check_version)
  qed
  have no_method: "(\<exists>msg. task_err (fst (check x s req)) = Some (ErrorP (- 32600) msg None)) \<and>
      task_m (fst (check x s req)) = None" if "M req = []"
  proof (cases "duplicate x s req")
    case True
    then show ?thesis by (simp add: check_duplicate)
  next
    case False
    show ?thesis
    proof (cases "versionOK s (V req)")
      case True
      with False that show ?thesis by (simp add: check_method_empty)
    next
      case False
      then show ?thesis by (rule bad_version)
    qed
  qed
  show ?thesis
    using v1 v2 bad_version no_method
    by (simp add: check_not_found check_runnable)
qed

theorem version_method_validation_witness:
  "\<not> versionOK sample_server (V (sample_call ''1.0'' ''1'' ''Math.Add'')) \<and>
   task_err (fst (check sample_ext sample_server (sample_call ''1.0'' ''1'' ''Math.Add''))) =
     Some (ErrorP (- 32600) ''incorrect version marker 1.0'' None) \<and>
   M (sample_call ''2.0'' ''1'' []) = [] \<and>
   task_err (fst (check sample_ext sample_server (sample_call ''2.0'' ''1'' []))) =
     Some (ErrorP (- 32600) ''empty method name'' None) \<and>
   \<not> duplicate sample_ext sample_server (sample_call ''2.0'' ''1'' ''Nope'') \<and>
   versionOK sample_server (V (sample_call ''2.0'' ''1'' ''Nope'')) \<and>
   assign sample_server (M (sample_call ''2.0'' ''1'' ''Nope'')) = None \<and>
   task_err (fst (check sample_ext sample_server (sample_call ''2.0'' ''1'' ''Nope''))) =
     Some (ErrorP (- 32601) ''no such method Nope'' None) \<and>
   assign sample_server (M (sample_call ''2.0'' ''1'' ''Math.Add'')) = Some sample_handler \<and>
   task_err (fst (check sample_ext sample_server (sample_call ''2.0'' ''1'' ''Math.Add''))) = None \<and>
   task_m (fst (check sample_ext sample_server (sample_call ''2.0'' ''1'' ''Math.Add''))) =
     Some sample_handler"
  using version_method_validation
          [of sample_server "''2.0''" "sample_call ''1.0'' ''1'' ''Math.Add''" sample_ext sample_handler]
        version_method_validation
          [of sample_server "''2.0''" "sample_call ''2.0'' ''1'' []" sample_ext sample_handler]
        version_method_validation
          [of sample_server "''2.0''" "sample_call ''2.0'' ''1'' ''Nope''" sample_ext sample_handler]
        version_method_validation
          [of sample_server "''2.0''" "sample_call ''2.0'' ''1'' ''Math.Add''" sample_ext sample_handler]
  by (simp add: sample_defs check_def Errorf_def E_InvalidRequest_def E_MethodNotFound_def)

text \<open>
  Claim C3. The responses of a batch are those of its requests that have an id, in the
  order of the batch: a request without an id (a notification) gets no entry, so the number
  of responses is the number of requests with an id. The function that completes the batch
  returns; it writes the responses as one message when there is one, and writes nothing
  for a batch of notifications. The error that the handler of a notification returns is
  discarded by \<open>dispatch\<close>. The normalisation \<open>fixID\<close> is taken to keep an absent id
  absent and a present id present.
\<close>

theorem notifications_get_no_response:
  assumes norm: "\<forall>i. (fixID x i = None) = (i = None)"
    and checked: "check_all x s reqs = (ts, s1)"
    and info: "info s2 = Some i2"
    and ch: "ch s2 = Some c" "\<not> closed c"
  shows "(\<exists>e rsps s3. complete x ts True s2 = Inr (e, rsps, s3) \<and>
           map rsp_ID rsps = filter (\<lambda>i. i \<noteq> None) (map (\<lambda>req. fixID x (ID req)) reqs) \<and>
           length rsps = length (filter (\<lambda>req. ID req \<noteq> None) reqs) \<and>
           (if rsps = [] then s3 = s2 else ch s3 = Some (c\<lparr>sent := sent c @ [rsps]\<rparr>))) \<and>
         (\<forall>m rq ctx e. IsNotification rq \<and> reqctx s2 rq = Inr ctx \<and> m ctx rq = Inl e \<longrightarrow>
            dispatch x s2 m rq = (None, None))"
proof -
  have ready: "\<forall>t \<in> set ts. task_err t = None \<longrightarrow> task_m t \<noteq> None"
  proof (intro ballI impI)
    fix t assume "t \<in> set ts" "task_err t = None"
    then show "task_m t \<noteq> None"
      using check_all_ready [of t x s reqs] checked by simp
  qed
  have reqs: "map task_req ts = map (\<lambda>req. req\<lparr>ID := fixID x (ID req)\<rparr>) reqs"
    using check_all_task_req [of x s reqs] checked by simp
  have ids: "map (\<lambda>t. ID (task_req t)) ts = map (\<lambda>req. fixID x (ID req)) reqs"
  proof -
    have "map (\<lambda>t. ID (task_req t)) ts = map ID (map task_req ts)" by simp
    also have "\<dots> = map (\<lambda>req. fixID x (ID req)) reqs" by (simp add: reqs)
    finally show ?thesis .
  qed
  have count: "length (filter (\<lambda>i. i \<noteq> None) (map (\<lambda>req. fixID x (ID req)) reqs)) =
               length (filter (\<lambda>req. ID req \<noteq> None) reqs)"
  proof -
    have n: "(fixID x (ID r) \<noteq> None) = (ID r \<noteq> None)" for r
      using norm by simp
    show ?thesis by (induction reqs) (simp_all add: n del: not_None_eq)
  qed
  from complete_returns [OF ready info ch, of x]
  obtain e rsps s3 where c: "complete x ts True s2 = Inr (e, rsps, s3)"
      "map rsp_ID rsps = filter (\<lambda>i. i \<noteq> None) (map (\<lambda>t. ID (task_req t)) ts)"
      "if rsps = [] then s3 = s2 else ch s3 = Some (c\<lparr>sent := sent c @ [rsps]\<rparr>)"
    by blast
  have ids': "map rsp_ID rsps = filter (\<lambda>i. i \<noteq> None) (map (\<lambda>req. fixID x (ID req)) reqs)"
    using c(2) ids by simp
  have "length (map rsp_ID rsps) = length (filter (\<lambda>req. ID req \<noteq> None) reqs)"
    using ids' count by simp
  then have len: "length rsps = length (filter (\<lambda>req. ID req \<noteq> None) reqs)"
    by simp
  have first: "\<exists>e rsps s3. complete x ts True s2 = Inr (e, rsps, s3) \<and>
           map rsp_ID rsps = filter (\<lambda>i. i \<noteq> None) (map (\<lambda>req. fixID x (ID req)) reqs) \<and>
           length rsps = length (filter (\<lambda>req. ID req \<noteq> None) reqs) \<and>
           (if rsps = [] then s3 = s2 else ch s3 = Some (c\<lparr>sent := sent c @ [rsps]\<rparr>))"
    using c(1) ids' len c(3) by blast
  have second: "\<forall>m rq ctx e. IsNotification rq \<and> reqctx s2 rq = Inr ctx \<and> m ctx rq = Inl e \<longrightarrow>
            dispatch x s2 m rq = (None, None)"
    by (simp add: dispatch_def)
  from first second show ?thesis by (rule conjI)
qed

theorem notifications_get_no_response_witness:
  "(\<forall>i. (fixID sample_ext i = None) = (i = None)) \<and>
   (\<exists>e rsps s3.
      complete sample_ext (fst (check_all sample_ext sample_server sample_batch)) True sample_server
        = Inr (e, rsps, s3) \<and>
      map rsp_ID rsps = [Some ''1'', Some ''2''] \<and> length rsps = 2 \<and>
      ch s3 = Some \<lparr>sent = [rsps], closed = False\<rparr>)"
proof -
  have norm: "\<forall>i. (fixID sample_ext i = None) = (i = None)"
    by (simp add: sample_ext_def)
  have checked: "check_all sample_ext sample_server sample_batch =
      (fst (check_all sample_ext sample_server sample_batch),
       snd (check_all sample_ext sample_server sample_batch))"
    by simp
  have info: "info sample_server = Some \<lparr>Methods = [], Requests = 0, BytesIn = 0, BytesOut = 0\<rparr>"
    by (simp add: sample_server_def)
  have ch: "ch sample_server = Some \<lparr>sent = [], closed = False\<rparr>"
           "\<not> closed \<lparr>sent = [], closed = False\<rparr>"
    by (simp_all add: sample_server_def)
  from notifications_get_no_response [OF norm checked info ch]
  obtain e rsps s3 where r:
    "complete sample_ext (fst (check_all sample_ext sample_server sample_batch)) True sample_server
        = Inr (e, rsps, s3)"
    "map rsp_ID rsps = filter (\<lambda>i. i \<noteq> None) (map (\<lambda>req. fixID sample_ext (ID req)) sample_batch)"
    "length rsps = length (filter (\<lambda>req. ID req \<noteq> None) sample_batch)"
    "if rsps = [] then s3 = sample_server
     else ch s3 = Some (\<lparr>sent = [], closed = False\<rparr>\<lparr>sent := sent \<lparr>sent = [], closed = False\<rparr> @ [rsps]\<rparr>)"
    by blast
  have ids: "map rsp_ID rsps = [Some ''1'', Some ''2'']"
    using r(2) by (simp add: sample_batch_def sample_call_def sample_note_def sample_ext_def)
  have len: "length rsps = 2"
    using r(3) by (simp add: sample_batch_def sample_call_def sample_note_def)
  then have "rsps \<noteq> []" by auto
  then have sent: "ch s3 = Some \<lparr>sent = [rsps], closed = False\<rparr>"
    using r(4) by simp
  have "\<exists>e rsps s3.
      complete sample_ext (fst (check_all sample_ext sample_server sample_batch)) True sample_server
        = Inr (e, rsps, s3) \<and>
      map rsp_ID rsps = [Some ''1'', Some ''2''] \<and> length rsps = 2 \<and>
      ch s3 = Some \<lparr>sent = [rsps], closed = False\<rparr>"
    using r(1) ids len sent
    by (intro exI [of _ e] exI [of _ rsps] exI [of _ s3]) simp
  with norm show ?thesis by (rule conjI)
qed


text \<open>
  Claim C9. For a request with an id whose handler returns an error, the task takes that
  error and the batch's response for it carries an error object: the code, message and
  data of a structured \<open>*Error\<close> as they are, the code of a \<open>Code\<close> with its text,
  and for any other error the code -32603 (Internal error) with the text of the error
  after "internal error: ". This is the response that the server computes and writes for
  the request, wherever its task stands in the batch: running the batch gives that task
  between the tasks that the others give, the responses collected are those of the tasks
  before, this response and those of the tasks after, and that list is the message written
  to an open channel.
\<close>

theorem handler_error_response:
  fixes s :: "('c, 'u) Server" and t :: "('c, 'u) task"
  assumes "ID (task_req t) \<noteq> None" and "task_err t = None" and "task_m t = Some m"
    and "reqctx s \<lparr>Request_id = ID (task_req t), Request_method = M (task_req t),
                   Request_params = P (task_req t)\<rparr> = Inr ctx"
    and "m ctx \<lparr>Request_id = ID (task_req t), Request_method = M (task_req t),
                Request_params = P (task_req t)\<rparr> = Inl e"
    and "run_tasks x s pre = Inr pre'" and "run_tasks x s post = Inr post'"
  shows "\<exists>t' rsp. run_task x s t = Inr t' \<and> task_err t' = Some e \<and>
           rsp = \<lparr>rsp_V = Version, rsp_ID = ID (task_req t),
                   rsp_E = Some (case e of
                       ErrorP c msg d \<Rightarrow> \<lparr>je_Code = c, je_Msg = msg, je_Data = d\<rparr>
                     | CodeE c \<Rightarrow> \<lparr>je_Code = c, je_Msg = code_text x c, je_Data = None\<rparr>
                     | Plain p \<Rightarrow> \<lparr>je_Code = - 32603,
                                    je_Msg = ''internal error: '' @ error_text p,
                                    je_Data = None\<rparr>),
                   rsp_R = None\<rparr> \<and>
           responses x [t'] = [rsp] \<and>
           run_tasks x s (pre @ t # post) = Inr (pre' @ t' # post') \<and>
           responses x (pre' @ t' # post') = responses x pre' @ rsp # responses x post' \<and>
           (info s = Some i0 \<longrightarrow>
              (\<exists>werr s'. complete x (pre @ t # post) True s =
                 Inr (werr, responses x pre' @ rsp # responses x post', s'))) \<and>
           (info s = Some i0 \<and> ch s = Some c0 \<and> \<not> closed c0 \<longrightarrow>
              complete x (pre @ t # post) True s =
                Inr (None, responses x pre' @ rsp # responses x post',
                     s\<lparr>ch := Some (c0\<lparr>sent := sent c0 @
                                       [responses x pre' @ rsp # responses x post']\<rparr>),
                       info := Some (i0\<lparr>BytesOut := BytesOut i0 +
                          int (length (wire x (responses x pre' @ rsp # responses x post')))\<rparr>)\<rparr>))"
proof -
  define t' where "t' = t\<lparr>task_val := None, task_err := Some e\<rparr>"
  define rsp where "rsp = \<lparr>rsp_V = Version, rsp_ID = ID (task_req t),
                   rsp_E = Some (case e of
                       ErrorP c msg d \<Rightarrow> \<lparr>je_Code = c, je_Msg = msg, je_Data = d\<rparr>
                     | CodeE c \<Rightarrow> \<lparr>je_Code = c, je_Msg = code_text x c, je_Data = None\<rparr>
                     | Plain p \<Rightarrow> \<lparr>je_Code = - 32603,
                                    je_Msg = ''internal error: '' @ error_text p,
                                    je_Data = None\<rparr>),
                   rsp_R = None\<rparr>"
  from assms(1) obtain i where i: "ID (task_req t) = Some i"
    by auto
  have run: "run_task x s t = Inr t'"
    using assms(2-5) by (simp add: run_task_def dispatch_def IsNotification_def t'_def i)
  have one: "responses x [t'] = [rsp]"
    by (cases e)
       (simp_all add: t'_def rsp_def response_def tojerror_def jerrorf_def E_InternalError_def i)
  have batch: "run_tasks x s (pre @ t # post) = Inr (pre' @ t' # post')"
    using assms(6) run assms(7) by (rule run_tasks_append)
  have rsps: "responses x (pre' @ t' # post') = responses x pre' @ rsp # responses x post'"
    using responses_append [of x pre' "[t'] @ post'"] responses_append [of x "[t']" post']
    by (simp only: one append_Cons append_Nil)
  have ne: "responses x (pre' @ t' # post') \<noteq> []"
    unfolding rsps by simp
  have computed: "\<exists>werr s'. complete x (pre @ t # post) True s =
                 Inr (werr, responses x pre' @ rsp # responses x post', s')"
    if "info s = Some i0"
    using complete_computes [OF batch that] unfolding rsps .
  have written: "complete x (pre @ t # post) True s =
                Inr (None, responses x pre' @ rsp # responses x post',
                     s\<lparr>ch := Some (c0\<lparr>sent := sent c0 @
                                       [responses x pre' @ rsp # responses x post']\<rparr>),
                       info := Some (i0\<lparr>BytesOut := BytesOut i0 +
                          int (length (wire x (responses x pre' @ rsp # responses x post')))\<rparr>)\<rparr>)"
    if "info s = Some i0" "ch s = Some c0" "\<not> closed c0"
    using complete_writes [OF batch ne that] unfolding rsps .
  have e: "task_err t' = Some e"
    by (simp add: t'_def)
  show ?thesis
  proof (rule exI [of _ t'], rule exI [of _ rsp], intro conjI impI)
    show "run_task x s t = Inr t'" by (rule run)
    show "task_err t' = Some e" by (rule e)
    show "rsp = \<lparr>rsp_V = Version, rsp_ID = ID (task_req t),
                   rsp_E = Some (case e of
                       ErrorP c msg d \<Rightarrow> \<lparr>je_Code = c, je_Msg = msg, je_Data = d\<rparr>
                     | CodeE c \<Rightarrow> \<lparr>je_Code = c, je_Msg = code_text x c, je_Data = None\<rparr>
                     | Plain p \<Rightarrow> \<lparr>je_Code = - 32603,
                                    je_Msg = ''internal error: '' @ error_text p,
                                    je_Data = None\<rparr>),
                   rsp_R = None\<rparr>" by (rule rsp_def)
    show "responses x [t'] = [rsp]" by (rule one)
    show "run_tasks x s (pre @ t # post) = Inr (pre' @ t' # post')" by (rule batch)
    show "responses x (pre' @ t' # post') = responses x pre' @ rsp # responses x post'"
      by (rule rsps)
    show "\<exists>werr s'. complete x (pre @ t # post) True s =
                 Inr (werr, responses x pre' @ rsp # responses x post', s')"
      if "info s = Some i0"
      using that by (rule computed)
    show "complete x (pre @ t # post) True s =
                Inr (None, responses x pre' @ rsp # responses x post',
                     s\<lparr>ch := Some (c0\<lparr>sent := sent c0 @
                                       [responses x pre' @ rsp # responses x post']\<rparr>),
                       info := Some (i0\<lparr>BytesOut := BytesOut i0 +
                          int (length (wire x (responses x pre' @ rsp # responses x post')))\<rparr>)\<rparr>)"
      if "info s = Some i0 \<and> ch s = Some c0 \<and> \<not> closed c0"
      using that written by simp
  qed
qed

theorem handler_error_response_witness:
  "ID (task_req (sample_task (sample_failing (ErrorP 7 ''no luck'' None)))) \<noteq> None \<and>
   (\<exists>t'. run_task sample_ext sample_server (sample_task (sample_failing (ErrorP 7 ''no luck'' None)))
            = Inr t' \<and>
         responses sample_ext [t'] =
           [\<lparr>rsp_V = ''2.0'', rsp_ID = Some ''1'',
             rsp_E = Some \<lparr>je_Code = 7, je_Msg = ''no luck'', je_Data = None\<rparr>, rsp_R = None\<rparr>]) \<and>
   (\<exists>t'. run_task sample_ext sample_server
            (sample_task (sample_failing (Plain (ErrorString ''disk full'')))) = Inr t' \<and>
         responses sample_ext [t'] =
           [\<lparr>rsp_V = ''2.0'', rsp_ID = Some ''1'',
             rsp_E = Some \<lparr>je_Code = - 32603, je_Msg = ''internal error: disk full'',
                            je_Data = None\<rparr>, rsp_R = None\<rparr>]) \<and>
   complete sample_ext
       [(sample_task sample_handler)\<lparr>task_req := sample_call ''2.0'' ''2'' ''Math.Add''\<rparr>,
        sample_task (sample_failing (ErrorP 7 ''no luck'' None)),
        (sample_task sample_handler)\<lparr>task_req := sample_note ''Math.Add''\<rparr>]
       True sample_server =
     Inr (None,
          [\<lparr>rsp_V = ''2.0'', rsp_ID = Some ''2'', rsp_E = None, rsp_R = Some ''null''\<rparr>,
           \<lparr>rsp_V = ''2.0'', rsp_ID = Some ''1'',
            rsp_E = Some \<lparr>je_Code = 7, je_Msg = ''no luck'', je_Data = None\<rparr>, rsp_R = None\<rparr>],
          sample_server
            \<lparr>ch := Some \<lparr>sent =
                [[\<lparr>rsp_V = ''2.0'', rsp_ID = Some ''2'', rsp_E = None, rsp_R = Some ''null''\<rparr>,
                  \<lparr>rsp_V = ''2.0'', rsp_ID = Some ''1'',
                   rsp_E = Some \<lparr>je_Code = 7, je_Msg = ''no luck'', je_Data = None\<rparr>,
                   rsp_R = None\<rparr>]],
                closed = False\<rparr>,
             info := Some \<lparr>Methods = [], Requests = 0, BytesIn = 0, BytesOut = 2\<rparr>\<rparr>) \<and>
   complete sample_ext
       [(sample_task sample_handler)\<lparr>task_req := sample_call ''2.0'' ''2'' ''Math.Add''\<rparr>,
        sample_task (sample_failing (Plain (ErrorString ''disk full''))),
        (sample_task sample_handler)\<lparr>task_req := sample_note ''Math.Add''\<rparr>]
       True sample_server =
     Inr (None,
          [\<lparr>rsp_V = ''2.0'', rsp_ID = Some ''2'', rsp_E = None, rsp_R = Some ''null''\<rparr>,
           \<lparr>rsp_V = ''2.0'', rsp_ID = Some ''1'',
            rsp_E = Some \<lparr>je_Code = - 32603, je_Msg = ''internal error: disk full'',
                           je_Data = None\<rparr>, rsp_R = None\<rparr>],
          sample_server
            \<lparr>ch := Some \<lparr>sent =
                [[\<lparr>rsp_V = ''2.0'', rsp_ID = Some ''2'', rsp_E = None, rsp_R = Some ''null''\<rparr>,
                  \<lparr>rsp_V = ''2.0'', rsp_ID = Some ''1'',
                   rsp_E = Some \<lparr>je_Code = - 32603, je_Msg = ''internal error: disk full'',
                                  je_Data = None\<rparr>,
                   rsp_R = None\<rparr>]],
                closed = False\<rparr>,
             info := Some \<lparr>Methods = [], Requests = 0, BytesIn = 0, BytesOut = 2\<rparr>\<rparr>)"
proof -
  let ?e1 = "ErrorP 7 ''no luck'' None"
  let ?e2 = "Plain (ErrorString ''disk full'')"
  let ?t1 = "sample_task (sample_failing ?e1)"
  let ?t2 = "sample_task (sample_failing ?e2)"
  let ?a = "(sample_task sample_handler)\<lparr>task_req := sample_call ''2.0'' ''2'' ''Math.Add''\<rparr>"
  let ?n = "(sample_task sample_handler)\<lparr>task_req := sample_note ''Math.Add''\<rparr>"
  let ?a' = "?a\<lparr>task_val := Some ''null'', task_err := None\<rparr>"
  let ?n' = "?n\<lparr>task_val := Some ''null'', task_err := None\<rparr>"
  let ?c = "\<lparr>sent = [], closed = False\<rparr>"
  let ?i = "\<lparr>Methods = [], Requests = 0, BytesIn = 0, BytesOut = 0\<rparr>"
  have a: "ID (task_req (sample_task m)) \<noteq> None" "task_err (sample_task m) = None"
     "task_m (sample_task m) = Some m" 
     "reqctx sample_server \<lparr>Request_id = ID (task_req (sample_task m)),
         Request_method = M (task_req (sample_task m)),
         Request_params = P (task_req (sample_task m))\<rparr> = Inr ()" for m
    by (simp_all add: sample_task_def sample_call_def sample_server_def)
  have b: "sample_failing e () \<lparr>Request_id = ID (task_req (sample_task m)),
         Request_method = M (task_req (sample_task m)),
         Request_params = P (task_req (sample_task m))\<rparr> = Inl e" for e m
    by (simp add: sample_failing_def)
  have pre: "run_tasks sample_ext sample_server [?a] = Inr [?a']"
    by (simp add: run_task_def dispatch_def sample_task_def sample_server_def sample_handler_def
          sample_ext_def)
  have post: "run_tasks sample_ext sample_server [?n] = Inr [?n']"
    by (simp add: run_task_def dispatch_def sample_task_def sample_server_def sample_handler_def
          sample_ext_def)
  have open_ch: "info sample_server = Some ?i \<and> ch sample_server = Some ?c \<and> \<not> closed ?c"
    by (simp add: sample_server_def)
  have rs: "responses sample_ext [?a'] =
      [\<lparr>rsp_V = ''2.0'', rsp_ID = Some ''2'', rsp_E = None, rsp_R = Some ''null''\<rparr>]"
    "responses sample_ext [?n'] = []"
    by (simp_all add: response_def sample_task_def sample_call_def sample_note_def Version_def)
  have w: "wire sample_ext rsps = ''[]''" for rsps
    by (simp add: sample_ext_def)
  from handler_error_response
         [where t = ?t1 and m = "sample_failing ?e1" and s = sample_server and ctx = "()"
            and e = ?e1 and x = sample_ext and pre = "[?a]" and pre' = "[?a']"
            and post = "[?n]" and post' = "[?n']" and ?i0.0 = ?i and ?c0.0 = ?c,
          OF a b pre post]
  obtain t1 r1 where t1: "run_task sample_ext sample_server ?t1 = Inr t1"
    "r1 = \<lparr>rsp_V = ''2.0'', rsp_ID = Some ''1'',
            rsp_E = Some \<lparr>je_Code = 7, je_Msg = ''no luck'', je_Data = None\<rparr>, rsp_R = None\<rparr>"
    "responses sample_ext [t1] = [r1]"
    "complete sample_ext [?a, ?t1, ?n] True sample_server =
       Inr (None, responses sample_ext [?a'] @ r1 # responses sample_ext [?n'],
            sample_server\<lparr>ch := Some (?c\<lparr>sent := sent ?c @
                               [responses sample_ext [?a'] @ r1 # responses sample_ext [?n']]\<rparr>),
               info := Some (?i\<lparr>BytesOut := BytesOut ?i +
                  int (length (wire sample_ext
                     (responses sample_ext [?a'] @ r1 # responses sample_ext [?n'])))\<rparr>)\<rparr>)"
    using open_ch by (auto simp: sample_task_def sample_call_def Version_def)
  from handler_error_response
         [where t = ?t2 and m = "sample_failing ?e2" and s = sample_server and ctx = "()"
            and e = ?e2 and x = sample_ext and pre = "[?a]" and pre' = "[?a']"
            and post = "[?n]" and post' = "[?n']" and ?i0.0 = ?i and ?c0.0 = ?c,
          OF a b pre post]
  obtain t2 r2 where t2: "run_task sample_ext sample_server ?t2 = Inr t2"
    "r2 = \<lparr>rsp_V = ''2.0'', rsp_ID = Some ''1'',
            rsp_E = Some \<lparr>je_Code = - 32603, je_Msg = ''internal error: disk full'',
                           je_Data = None\<rparr>, rsp_R = None\<rparr>"
    "responses sample_ext [t2] = [r2]"
    "complete sample_ext [?a, ?t2, ?n] True sample_server =
       Inr (None, responses sample_ext [?a'] @ r2 # responses sample_ext [?n'],
            sample_server\<lparr>ch := Some (?c\<lparr>sent := sent ?c @
                               [responses sample_ext [?a'] @ r2 # responses sample_ext [?n']]\<rparr>),
               info := Some (?i\<lparr>BytesOut := BytesOut ?i +
                  int (length (wire sample_ext
                     (responses sample_ext [?a'] @ r2 # responses sample_ext [?n'])))\<rparr>)\<rparr>)"
    using open_ch by (auto simp: sample_task_def sample_call_def Version_def)
  have c1: "\<exists>t'. run_task sample_ext sample_server ?t1 = Inr t' \<and>
         responses sample_ext [t'] =
           [\<lparr>rsp_V = ''2.0'', rsp_ID = Some ''1'',
             rsp_E = Some \<lparr>je_Code = 7, je_Msg = ''no luck'', je_Data = None\<rparr>, rsp_R = None\<rparr>]"
    using t1(1,2,3) by simp
  have c2: "\<exists>t'. run_task sample_ext sample_server ?t2 = Inr t' \<and>
         responses sample_ext [t'] =
           [\<lparr>rsp_V = ''2.0'', rsp_ID = Some ''1'',
             rsp_E = Some \<lparr>je_Code = - 32603, je_Msg = ''internal error: disk full'',
                            je_Data = None\<rparr>, rsp_R = None\<rparr>]"
    using t2(1,2,3) by simp
  have d1: "complete sample_ext [?a, ?t1, ?n] True sample_server =
     Inr (None,
          [\<lparr>rsp_V = ''2.0'', rsp_ID = Some ''2'', rsp_E = None, rsp_R = Some ''null''\<rparr>,
           \<lparr>rsp_V = ''2.0'', rsp_ID = Some ''1'',
            rsp_E = Some \<lparr>je_Code = 7, je_Msg = ''no luck'', je_Data = None\<rparr>, rsp_R = None\<rparr>],
          sample_server
            \<lparr>ch := Some \<lparr>sent =
                [[\<lparr>rsp_V = ''2.0'', rsp_ID = Some ''2'', rsp_E = None, rsp_R = Some ''null''\<rparr>,
                  \<lparr>rsp_V = ''2.0'', rsp_ID = Some ''1'',
                   rsp_E = Some \<lparr>je_Code = 7, je_Msg = ''no luck'', je_Data = None\<rparr>,
                   rsp_R = None\<rparr>]],
                closed = False\<rparr>,
             info := Some \<lparr>Methods = [], Requests = 0, BytesIn = 0, BytesOut = 2\<rparr>\<rparr>)"
    unfolding t1(4) rs w t1(2) by simp
  have d2: "complete sample_ext [?a, ?t2, ?n] True sample_server =
     Inr (None,
          [\<lparr>rsp_V = ''2.0'', rsp_ID = Some ''2'', rsp_E = None, rsp_R = Some ''null''\<rparr>,
           \<lparr>rsp_V = ''2.0'', rsp_ID = Some ''1'',
            rsp_E = Some \<lparr>je_Code = - 32603, je_Msg = ''internal error: disk full'',
                           je_Data = None\<rparr>, rsp_R = None\<rparr>],
          sample_server
            \<lparr>ch := Some \<lparr>sent =
                [[\<lparr>rsp_V = ''2.0'', rsp_ID = Some ''2'', rsp_E = None, rsp_R = Some ''null''\<rparr>,
                  \<lparr>rsp_V = ''2.0'', rsp_ID = Some ''1'',
                   rsp_E = Some \<lparr>je_Code = - 32603, je_Msg = ''internal error: disk full'',
                                  je_Data = None\<rparr>,
                   rsp_R = None\<rparr>]],
                closed = False\<rparr>,
             info := Some \<lparr>Methods = [], Requests = 0, BytesIn = 0, BytesOut = 2\<rparr>\<rparr>)"
    unfolding t2(4) rs w t2(2) by simp
  from a(1) c1 c2 d1 d2 show ?thesis by (intro conjI)
qed

section \<open>The claims about shutdown, the set of ids and the receive loop\<close>

text \<open>
  Claim C1 says that \<open>stop\<close> drops every pending call and keeps every pending
  notification. The code does not: its loop runs from the front element up to, and not
  including, the back element, so with one batch queued nothing is looked at and a pending
  call stays in the queue. With two batches queued, the loop removes the front element and
  then asks the removed element for its successor, which is nil and is not the back
  element, so the next round reads through a nil pointer: \<open>stop\<close> panics.
\<close>

theorem stop_retains_calls:
  "stop (sample_server\<lparr>inq := queue_of [[sample_call ''2.0'' ''1'' ''Math.Add'']]\<rparr>)
        (Plain (ErrorString ''server stopped'')) =
     Inr (sample_server\<lparr>inq := queue_of [[sample_call ''2.0'' ''1'' ''Math.Add'']],
                        err := Some (Plain (ErrorString ''server stopped'')), ch := None\<rparr>) \<and>
   batches (queue_of [[sample_call ''2.0'' ''1'' ''Math.Add'']]) =
     [[sample_call ''2.0'' ''1'' ''Math.Add'']] \<and>
   stop (sample_server\<lparr>inq := queue_of [[sample_note ''Log''], [sample_note ''Log'']]\<rparr>)
        (Plain (ErrorString ''server stopped'')) = Inl NilDereference"
proof -
  have c: "ch (sample_server\<lparr>inq := q\<rparr>) = Some \<lparr>sent = [], closed = False\<rparr>" for q
    by (simp add: sample_server_def)
  have one: "stop (sample_server\<lparr>inq := queue_of [[sample_call ''2.0'' ''1'' ''Math.Add'']]\<rparr>)
        (Plain (ErrorString ''server stopped'')) =
     Inr (sample_server\<lparr>inq := queue_of [[sample_call ''2.0'' ''1'' ''Math.Add'']],
                        err := Some (Plain (ErrorString ''server stopped'')), ch := None\<rparr>)"
    using stop_queue_of [OF c, of _ "[[sample_call ''2.0'' ''1'' ''Math.Add'']]"] by simp
  have two: "stop (sample_server\<lparr>inq := queue_of [[sample_note ''Log''], [sample_note ''Log'']]\<rparr>)
        (Plain (ErrorString ''server stopped'')) = Inl NilDereference"
    using stop_queue_of [OF c, of _ "[[sample_note ''Log''], [sample_note ''Log'']]"] by simp
  have b: "batches (queue_of [[sample_call ''2.0'' ''1'' ''Math.Add'']]) =
     [[sample_call ''2.0'' ''1'' ''Math.Add'']]"
    by (simp add: batches_def queue_of_def PushBack_def New_def)
  from one b two show ?thesis by simp
qed

text \<open>
  Claim C2 says that an id leaves the set \<open>used\<close> once its response is written, so that
  a later request may use it again. The code adds the id in \<open>nextRequest\<close> and never
  takes it out: on the sample server, the call with id 1 is admitted, run and answered
  (its response is the one message on the channel), the id is still in the set afterwards,
  and the next request with id 1 is rejected as a duplicate.
\<close>

theorem used_id_not_released:
  "\<exists>ts s1 rsps s2 ts' s3.
     nextRequest sample_ext sample_queued = Inr (Ready ts True s1) \<and>
     complete sample_ext ts True s1 = Inr (None, rsps, s2) \<and>
     map rsp_ID rsps = [Some ''1''] \<and> map rsp_E rsps = [None] \<and>
     ch s2 = Some \<lparr>sent = [rsps], closed = False\<rparr> \<and>
     used s2 = {''1''} \<and>
     nextRequest sample_ext (s2\<lparr>inq := PushBack (inq s2) [sample_call ''2.0'' ''1'' ''Math.Add'']\<rparr>)
       = Inr (Ready ts' True s3) \<and>
     map task_err ts' = [Some (ErrorP (- 32600) ''duplicate request id 1'' None)]"
  by (simp add: nextRequest_def complete_def run_task_def dispatch_def response_def
        check_def Let_def sample_queued_def sample_server_def sample_ext_def sample_call_def
        sample_handler_def queue_of_def PushBack_def New_def Len_def Front_def Remove_def
        versionOK_def assign_def Version_def string_of_def Errorf_def E_InvalidRequest_def
        captured_def encode_def)




section \<open>Properties of the header framing\<close>

lemma Atoi_not_numeric: "\<not> numeric s \<Longrightarrow> Atoi s = None"
  by (cases s) (auto simp: numeric_def Atoi_def Let_def)

lemma negative_Atoi:
  "negative s \<Longrightarrow> Atoi s = None \<or> (\<exists>n<0. Atoi s = Some n)"
  by (cases s) (auto simp: negative_def Atoi_def Let_def)

lemma Recv_parsed:
  "read_headers lo Map.empty (rd h) = (Inr p, r) \<Longrightarrow> Recv lo maxAlloc h = Recv_body maxAlloc h p r"
  by (simp add: Recv_def)


lemma sample_hdr_parsed:
  "\<not> isl (fst (read_headers (\<lambda>s. s) Map.empty (sample_reader (sample_lines ls ''hi'')))) \<Longrightarrow>
   snd (read_headers (\<lambda>s. s) Map.empty (sample_reader (sample_lines ls ''hi''))) = sample_reader ''hi'' \<Longrightarrow>
   read_headers (\<lambda>s. s) Map.empty (rd (sample_hdr mime ls)) =
     (Inr (sample_parsed ls), sample_reader ''hi'')"
  by (simp add: sample_hdr_def sample_parsed_def Header_def prod_eq_iff)


































section \<open>The claims about the framings\<close>

text \<open>
  Claim C8. When the header lines of a message have been read into the map of fields,
  \<open>Recv\<close> of the header framing returns an error if the field content-type is there and
  differs from the MIME type of the framing; otherwise it returns an error if the field
  content-length is missing, if its value is not numeric, or if it is a negative number:
  one that \<open>Atoi\<close> reads as a number below zero, and also one below the 64-bit range,
  which \<open>Atoi\<close> refuses (every value that \<open>Atoi\<close> refuses is an error). The error is
  returned before anything of the body is read. No other field of the map has an influence
  on the result.
\<close>

theorem header_recv_rejects:
  assumes "read_headers lo Map.empty (rd h) = (Inr p, r)"
  shows "(p ''content-type'' = Some ct \<and> ct \<noteq> mtype h \<longrightarrow>
            Recv lo maxAlloc h = Inr (Inl (ErrorString ''invalid content-type''), h\<lparr>rd := r\<rparr>)) \<and>
         (p ''content-type'' = None \<or> p ''content-type'' = Some (mtype h) \<longrightarrow>
            (p ''content-length'' = None \<longrightarrow>
               Recv lo maxAlloc h =
                 Inr (Inl (ErrorString ''missing required content-length''), h\<lparr>rd := r\<rparr>)) \<and>
            (p ''content-length'' = Some clen \<and> \<not> numeric clen \<longrightarrow>
               Recv lo maxAlloc h = Inr (Inl (ErrorString ''invalid content-length''), h\<lparr>rd := r\<rparr>)) \<and>
            (p ''content-length'' = Some clen \<and> Atoi clen = Some n \<and> n < 0 \<longrightarrow>
               Recv lo maxAlloc h = Inr (Inl (ErrorString ''invalid content-length''), h\<lparr>rd := r\<rparr>)) \<and>
            (p ''content-length'' = Some clen \<and> negative clen \<longrightarrow>
               Recv lo maxAlloc h = Inr (Inl (ErrorString ''invalid content-length''), h\<lparr>rd := r\<rparr>)) \<and>
            (p ''content-length'' = Some clen \<and> Atoi clen = None \<longrightarrow>
               Recv lo maxAlloc h = Inr (Inl (ErrorString ''invalid content-length''), h\<lparr>rd := r\<rparr>))) \<and>
         (\<forall>q. q ''content-type'' = p ''content-type'' \<and>
               q ''content-length'' = p ''content-length'' \<longrightarrow>
               Recv_body maxAlloc h q r = Recv lo maxAlloc h)"
proof -
  have r: "Recv lo maxAlloc h = Recv_body maxAlloc h p r"
    using assms by (rule Recv_parsed)
  have a: "p ''content-type'' = Some ct \<and> ct \<noteq> mtype h \<longrightarrow>
            Recv lo maxAlloc h = Inr (Inl (ErrorString ''invalid content-type''), h\<lparr>rd := r\<rparr>)"
    by (simp add: r Recv_body_def)
  have ok: "(case p ''content-type'' of Some ct \<Rightarrow> ct \<noteq> mtype h | None \<Rightarrow> False) = False"
    if "p ''content-type'' = None \<or> p ''content-type'' = Some (mtype h)"
    using that by auto
  have none: "Recv lo maxAlloc h = Inr (Inl (ErrorString ''invalid content-length''), h\<lparr>rd := r\<rparr>)"
    if "p ''content-type'' = None \<or> p ''content-type'' = Some (mtype h)"
      and "p ''content-length'' = Some clen" "Atoi clen = None" for clen
    using that(2,3) by (simp add: r Recv_body_def ok [OF that(1)])
  have below: "Recv lo maxAlloc h = Inr (Inl (ErrorString ''invalid content-length''), h\<lparr>rd := r\<rparr>)"
    if "p ''content-type'' = None \<or> p ''content-type'' = Some (mtype h)"
      and "p ''content-length'' = Some clen" "Atoi clen = Some n" "n < 0" for clen n
    using that(2,3,4) by (simp add: r Recv_body_def ok [OF that(1)])
  have b: "p ''content-type'' = None \<or> p ''content-type'' = Some (mtype h) \<longrightarrow>
            (p ''content-length'' = None \<longrightarrow>
               Recv lo maxAlloc h =
                 Inr (Inl (ErrorString ''missing required content-length''), h\<lparr>rd := r\<rparr>)) \<and>
            (p ''content-length'' = Some clen \<and> \<not> numeric clen \<longrightarrow>
               Recv lo maxAlloc h = Inr (Inl (ErrorString ''invalid content-length''), h\<lparr>rd := r\<rparr>)) \<and>
            (p ''content-length'' = Some clen \<and> Atoi clen = Some n \<and> n < 0 \<longrightarrow>
               Recv lo maxAlloc h = Inr (Inl (ErrorString ''invalid content-length''), h\<lparr>rd := r\<rparr>)) \<and>
            (p ''content-length'' = Some clen \<and> negative clen \<longrightarrow>
               Recv lo maxAlloc h = Inr (Inl (ErrorString ''invalid content-length''), h\<lparr>rd := r\<rparr>)) \<and>
            (p ''content-length'' = Some clen \<and> Atoi clen = None \<longrightarrow>
               Recv lo maxAlloc h = Inr (Inl (ErrorString ''invalid content-length''), h\<lparr>rd := r\<rparr>))"
  proof (intro impI conjI)
    assume t: "p ''content-type'' = None \<or> p ''content-type'' = Some (mtype h)"
    {
      assume "p ''content-length'' = None"
      then show "Recv lo maxAlloc h =
                 Inr (Inl (ErrorString ''missing required content-length''), h\<lparr>rd := r\<rparr>)"
        by (simp add: r Recv_body_def ok [OF t])
    next
      assume "p ''content-length'' = Some clen \<and> \<not> numeric clen"
      then show "Recv lo maxAlloc h = Inr (Inl (ErrorString ''invalid content-length''), h\<lparr>rd := r\<rparr>)"
        using none [OF t, of clen] Atoi_not_numeric [of clen] by simp
    next
      assume "p ''content-length'' = Some clen \<and> Atoi clen = Some n \<and> n < 0"
      then show "Recv lo maxAlloc h = Inr (Inl (ErrorString ''invalid content-length''), h\<lparr>rd := r\<rparr>)"
        using below [OF t, of clen n] by simp
    next
      assume n: "p ''content-length'' = Some clen \<and> negative clen"
      then have "Atoi clen = None \<or> (\<exists>n<0. Atoi clen = Some n)"
        using negative_Atoi by simp
      then show "Recv lo maxAlloc h = Inr (Inl (ErrorString ''invalid content-length''), h\<lparr>rd := r\<rparr>)"
      proof
        assume "Atoi clen = None"
        then show ?thesis using none [OF t, of clen] n by simp
      next
        assume "\<exists>n<0. Atoi clen = Some n"
        then obtain m where "m < 0" "Atoi clen = Some m" by auto
        then show ?thesis using below [OF t, of clen m] n by simp
      qed
    next
      assume "p ''content-length'' = Some clen \<and> Atoi clen = None"
      then show "Recv lo maxAlloc h = Inr (Inl (ErrorString ''invalid content-length''), h\<lparr>rd := r\<rparr>)"
        using none [OF t, of clen] by simp
    }
  qed
  have c: "\<forall>q. q ''content-type'' = p ''content-type'' \<and>
               q ''content-length'' = p ''content-length'' \<longrightarrow>
               Recv_body maxAlloc h q r = Recv lo maxAlloc h"
    by (simp add: r Recv_body_def)
  from a b c show ?thesis by (intro conjI)
qed

theorem header_recv_rejects_witness:
  "sample_parsed [''Content-Type: text/plain'', ''Content-Length: 2''] ''content-type'' =
     Some ''text/plain'' \<and>
   ''text/plain'' \<noteq> mtype (sample_hdr ''application/json'' [''Content-Type: text/plain'', ''Content-Length: 2'']) \<and>
   Recv (\<lambda>s. s) sample_maxAlloc
       (sample_hdr ''application/json'' [''Content-Type: text/plain'', ''Content-Length: 2'']) =
     Inr (Inl (ErrorString ''invalid content-type''),
          (sample_hdr ''application/json'' [''Content-Type: text/plain'', ''Content-Length: 2''])
            \<lparr>rd := sample_reader ''hi''\<rparr>) \<and>
   sample_parsed [''X-Foo: 1''] ''content-length'' = None \<and>
   Recv (\<lambda>s. s) sample_maxAlloc (sample_hdr ''application/json'' [''X-Foo: 1'']) =
     Inr (Inl (ErrorString ''missing required content-length''),
          (sample_hdr ''application/json'' [''X-Foo: 1''])\<lparr>rd := sample_reader ''hi''\<rparr>) \<and>
   \<not> numeric ''abc'' \<and>
   Recv (\<lambda>s. s) sample_maxAlloc (sample_hdr ''application/json'' [''Content-Length: abc'']) =
     Inr (Inl (ErrorString ''invalid content-length''),
          (sample_hdr ''application/json'' [''Content-Length: abc''])\<lparr>rd := sample_reader ''hi''\<rparr>) \<and>
   Atoi ''-1'' = Some (- 1) \<and>
   Recv (\<lambda>s. s) sample_maxAlloc (sample_hdr ''application/json'' [''Content-Length: -1'']) =
     Inr (Inl (ErrorString ''invalid content-length''),
          (sample_hdr ''application/json'' [''Content-Length: -1''])\<lparr>rd := sample_reader ''hi''\<rparr>) \<and>
   negative ''-99999999999999999999'' \<and> Atoi ''-99999999999999999999'' = None \<and>
   Recv (\<lambda>s. s) sample_maxAlloc
       (sample_hdr ''application/json'' [''Content-Length: -99999999999999999999'']) =
     Inr (Inl (ErrorString ''invalid content-length''),
          (sample_hdr ''application/json'' [''Content-Length: -99999999999999999999''])
            \<lparr>rd := sample_reader ''hi''\<rparr>) \<and>
   Atoi ''99999999999999999999'' = None \<and>
   Recv (\<lambda>s. s) sample_maxAlloc
       (sample_hdr ''application/json'' [''Content-Length: 99999999999999999999'']) =
     Inr (Inl (ErrorString ''invalid content-length''),
          (sample_hdr ''application/json'' [''Content-Length: 99999999999999999999''])
            \<lparr>rd := sample_reader ''hi''\<rparr>) \<and>
   Recv (\<lambda>s. s) sample_maxAlloc (sample_hdr ''application/json'' [''X-Foo: 1'', ''Content-Length: 2'']) =
     Recv_body sample_maxAlloc (sample_hdr ''application/json'' [''X-Foo: 1'', ''Content-Length: 2''])
       [''content-length'' \<mapsto> ''2''] (sample_reader ''hi'') \<and>
   Recv_body sample_maxAlloc (sample_hdr ''application/json'' [''X-Foo: 1'', ''Content-Length: 2''])
       [''content-length'' \<mapsto> ''2''] (sample_reader ''hi'') =
     Inr (Inr ''hi'',
          (sample_hdr ''application/json'' [''X-Foo: 1'', ''Content-Length: 2''])
            \<lparr>rd := sample_reader []\<rparr>)"
proof -
  let ?L1 = "[''Content-Type: text/plain'', ''Content-Length: 2'']"
  let ?L2 = "[''X-Foo: 1'']"
  let ?L3 = "[''Content-Length: abc'']"
  let ?L4 = "[''Content-Length: -1'']"
  let ?L5 = "[''X-Foo: 1'', ''Content-Length: 2'']"
  let ?L6 = "[''Content-Length: -99999999999999999999'']"
  let ?L7 = "[''Content-Length: 99999999999999999999'']"
  let ?mime = "''application/json''"
  let ?M = sample_maxAlloc
  have p1: "read_headers (\<lambda>s. s) Map.empty (rd (sample_hdr ?mime ?L1)) =
     (Inr (sample_parsed ?L1), sample_reader ''hi'')"
    by (rule sample_hdr_parsed) code_simp+
  have p2: "read_headers (\<lambda>s. s) Map.empty (rd (sample_hdr ?mime ?L2)) =
     (Inr (sample_parsed ?L2), sample_reader ''hi'')"
    by (rule sample_hdr_parsed) code_simp+
  have p3: "read_headers (\<lambda>s. s) Map.empty (rd (sample_hdr ?mime ?L3)) =
     (Inr (sample_parsed ?L3), sample_reader ''hi'')"
    by (rule sample_hdr_parsed) code_simp+
  have p4: "read_headers (\<lambda>s. s) Map.empty (rd (sample_hdr ?mime ?L4)) =
     (Inr (sample_parsed ?L4), sample_reader ''hi'')"
    by (rule sample_hdr_parsed) code_simp+
  have p5: "read_headers (\<lambda>s. s) Map.empty (rd (sample_hdr ?mime ?L5)) =
     (Inr (sample_parsed ?L5), sample_reader ''hi'')"
    by (rule sample_hdr_parsed) code_simp+
  have p6: "read_headers (\<lambda>s. s) Map.empty (rd (sample_hdr ?mime ?L6)) =
     (Inr (sample_parsed ?L6), sample_reader ''hi'')"
    by (rule sample_hdr_parsed) code_simp+
  have p7: "read_headers (\<lambda>s. s) Map.empty (rd (sample_hdr ?mime ?L7)) =
     (Inr (sample_parsed ?L7), sample_reader ''hi'')"
    by (rule sample_hdr_parsed) code_simp+
  have v1: "sample_parsed ?L1 ''content-type'' = Some ''text/plain''"
    "''text/plain'' \<noteq> mtype (sample_hdr ?mime ?L1)"
    by code_simp+
  have v2: "sample_parsed ?L2 ''content-type'' = None" "sample_parsed ?L2 ''content-length'' = None"
    by code_simp+
  have v3: "sample_parsed ?L3 ''content-type'' = None"
    "sample_parsed ?L3 ''content-length'' = Some ''abc''" "\<not> numeric ''abc''"
    by code_simp+
  have v4: "sample_parsed ?L4 ''content-type'' = None"
    "sample_parsed ?L4 ''content-length'' = Some ''-1''" "Atoi ''-1'' = Some (- 1)"
    by code_simp+
  have v5: "[''content-length'' \<mapsto> ''2''] ''content-type'' = sample_parsed ?L5 ''content-type''"
    "[''content-length'' \<mapsto> ''2''] ''content-length'' = sample_parsed ?L5 ''content-length''"
    by code_simp+
  have v6: "sample_parsed ?L6 ''content-type'' = None"
    "sample_parsed ?L6 ''content-length'' = Some ''-99999999999999999999''"
    by code_simp+
  have n6: "negative ''-99999999999999999999''"
    by (simp add: negative_def is_digit_def digits_value_def)
  have a6: "Atoi ''-99999999999999999999'' = None"
    by (simp add: Atoi_def is_digit_def digits_value_def)
  have v7: "sample_parsed ?L7 ''content-type'' = None"
    "sample_parsed ?L7 ''content-length'' = Some ''99999999999999999999''"
    by code_simp+
  have a7: "Atoi ''99999999999999999999'' = None"
    by (simp add: Atoi_def is_digit_def digits_value_def)
  have c1: "Recv (\<lambda>s. s) ?M (sample_hdr ?mime ?L1) =
     Inr (Inl (ErrorString ''invalid content-type''), (sample_hdr ?mime ?L1)\<lparr>rd := sample_reader ''hi''\<rparr>)"
    using header_recv_rejects [OF p1, where ct = "''text/plain''"] v1 by simp
  have c2: "Recv (\<lambda>s. s) ?M (sample_hdr ?mime ?L2) =
     Inr (Inl (ErrorString ''missing required content-length''),
          (sample_hdr ?mime ?L2)\<lparr>rd := sample_reader ''hi''\<rparr>)"
    using header_recv_rejects [OF p2] v2 by simp
  have c3: "Recv (\<lambda>s. s) ?M (sample_hdr ?mime ?L3) =
     Inr (Inl (ErrorString ''invalid content-length''), (sample_hdr ?mime ?L3)\<lparr>rd := sample_reader ''hi''\<rparr>)"
    using header_recv_rejects [OF p3, where clen = "''abc''"] v3 by simp
  have c4: "Recv (\<lambda>s. s) ?M (sample_hdr ?mime ?L4) =
     Inr (Inl (ErrorString ''invalid content-length''), (sample_hdr ?mime ?L4)\<lparr>rd := sample_reader ''hi''\<rparr>)"
    using header_recv_rejects [OF p4, where clen = "''-1''" and n = "- 1"] v4 by simp
  have c5: "Recv (\<lambda>s. s) ?M (sample_hdr ?mime ?L5) =
     Recv_body ?M (sample_hdr ?mime ?L5) [''content-length'' \<mapsto> ''2''] (sample_reader ''hi'')"
    using header_recv_rejects [OF p5] v5 by simp
  have c6: "Recv (\<lambda>s. s) ?M (sample_hdr ?mime ?L6) =
     Inr (Inl (ErrorString ''invalid content-length''), (sample_hdr ?mime ?L6)\<lparr>rd := sample_reader ''hi''\<rparr>)"
    using header_recv_rejects [OF p6, where clen = "''-99999999999999999999''"] v6 n6
    by (simp del: One_nat_def)
  have c7: "Recv (\<lambda>s. s) ?M (sample_hdr ?mime ?L7) =
     Inr (Inl (ErrorString ''invalid content-length''), (sample_hdr ?mime ?L7)\<lparr>rd := sample_reader ''hi''\<rparr>)"
    using header_recv_rejects [OF p7, where clen = "''99999999999999999999''"] v7 a7
    by simp
  have c8: "Recv_body ?M (sample_hdr ?mime ?L5) [''content-length'' \<mapsto> ''2'']
       (sample_reader ''hi'') =
     Inr (Inr ''hi'', (sample_hdr ?mime ?L5)\<lparr>rd := sample_reader []\<rparr>)"
    by code_simp
  from v1 c1 v2(2) c2 v3(3) c3 v4(3) c4 n6 a6 c6 a7 c7 c5 c8 show ?thesis by (intro conjI)
qed

section \<open>Properties of the raw framing\<close>





































text \<open>
  Claim C10. A header framing made with the empty MIME type has an empty content-type line:
  \<open>Send\<close> writes the content-length line, the empty line and the message only. Its
  \<open>Recv\<close> compares a content-type field with the empty string: a message with a
  content-type field whose value is not empty is rejected, and a message without that
  field (or with an empty value for it) whose content-length is a number that is not
  negative is accepted, and its body returned when the bytes are there and a buffer of that
  length can be allocated (\<open>make\<close> panics otherwise, whatever the MIME type).
\<close>

theorem header_without_mime:
  "ctype (Header [] r w) = [] \<and>
   frame (Header [] r w) msg =
     ''Content-Length: '' @ Itoa (int (length msg)) @ [CR, LF, CR, LF] @ msg \<and>
   (broken w = None \<longrightarrow>
      Send (Header [] r w) msg =
        (None, Header [] r (w\<lparr>written := written w @ frame (Header [] r w) msg\<rparr>))) \<and>
   (read_headers lo Map.empty r = (Inr p, r') \<longrightarrow>
      (p ''content-type'' = Some ct \<and> ct \<noteq> [] \<longrightarrow>
         Recv lo maxAlloc (Header [] r w) =
           Inr (Inl (ErrorString ''invalid content-type''), Header [] r' w)) \<and>
      ((p ''content-type'' = None \<or> p ''content-type'' = Some []) \<and>
       p ''content-length'' = Some clen \<and> Atoi clen = Some n \<and> 0 \<le> n \<and>
       nat n \<le> length (pending r') \<longrightarrow>
         (nat n \<le> maxAlloc \<longrightarrow>
            Recv lo maxAlloc (Header [] r w) =
              Inr (Inr (take (nat n) (pending r')),
                   Header [] (r'\<lparr>pending := drop (nat n) (pending r')\<rparr>) w)) \<and>
         (maxAlloc < nat n \<longrightarrow>
            Recv lo maxAlloc (Header [] r w) = Inl MakesliceLenOutOfRange)))"
proof -
  have a: "ctype (Header [] r w) = []"
    by (simp add: Header_def)
  have b: "frame (Header [] r w) msg =
     ''Content-Length: '' @ Itoa (int (length msg)) @ [CR, LF, CR, LF] @ msg"
    by (simp add: frame_def Header_def)
  have c: "broken w = None \<longrightarrow>
      Send (Header [] r w) msg =
        (None, Header [] r (w\<lparr>written := written w @ frame (Header [] r w) msg\<rparr>))"
    by (simp add: Send_def Write_def Header_def)
  have d: "(p ''content-type'' = Some ct \<and> ct \<noteq> [] \<longrightarrow>
         Recv lo maxAlloc (Header [] r w) =
           Inr (Inl (ErrorString ''invalid content-type''), Header [] r' w)) \<and>
      ((p ''content-type'' = None \<or> p ''content-type'' = Some []) \<and>
       p ''content-length'' = Some clen \<and> Atoi clen = Some n \<and> 0 \<le> n \<and>
       nat n \<le> length (pending r') \<longrightarrow>
         (nat n \<le> maxAlloc \<longrightarrow>
            Recv lo maxAlloc (Header [] r w) =
              Inr (Inr (take (nat n) (pending r')),
                   Header [] (r'\<lparr>pending := drop (nat n) (pending r')\<rparr>) w)) \<and>
         (maxAlloc < nat n \<longrightarrow>
            Recv lo maxAlloc (Header [] r w) = Inl MakesliceLenOutOfRange))"
    if "read_headers lo Map.empty r = (Inr p, r')"
  proof -
    have rdh: "rd (Header [] r w) = r" and mt: "mtype (Header [] r w) = []"
      and upd: "(Header [] r w)\<lparr>rd := x\<rparr> = Header [] x w" for x
      by (simp_all add: Header_def)
    have R: "Recv lo maxAlloc (Header [] r w) = Recv_body maxAlloc (Header [] r w) p r'"
      using that by (simp add: Recv_def rdh)
    have d1: "p ''content-type'' = Some ct \<and> ct \<noteq> [] \<longrightarrow>
         Recv lo maxAlloc (Header [] r w) =
           Inr (Inl (ErrorString ''invalid content-type''), Header [] r' w)"
      by (simp add: R Recv_body_def mt upd)
    have ok: "(case p ''content-type'' of Some ct \<Rightarrow> ct \<noteq> mtype (Header [] r w) | None \<Rightarrow> False) =
              False"
      if "p ''content-type'' = None \<or> p ''content-type'' = Some []"
      using that by (auto simp: mt)
    have d2: "(nat n \<le> maxAlloc \<longrightarrow>
            Recv lo maxAlloc (Header [] r w) =
              Inr (Inr (take (nat n) (pending r')),
                   Header [] (r'\<lparr>pending := drop (nat n) (pending r')\<rparr>) w)) \<and>
         (maxAlloc < nat n \<longrightarrow>
            Recv lo maxAlloc (Header [] r w) = Inl MakesliceLenOutOfRange)"
      if "p ''content-type'' = None \<or> p ''content-type'' = Some []"
        and "p ''content-length'' = Some clen" "Atoi clen = Some n" "0 \<le> n"
        "nat n \<le> length (pending r')"
      using that(2-5) by (simp add: R Recv_body_def mt upd ok [OF that(1)] ReadFull_def)
    from d1 d2 show ?thesis by simp
  qed
  from a b c d show ?thesis by simp
qed

theorem header_without_mime_witness:
  "ctype (Header [] (sample_reader []) sample_writer) = [] \<and>
   Send (Header [] (sample_reader []) sample_writer) ''hi'' =
     (None, Header [] (sample_reader [])
              (sample_writer\<lparr>written := ''Content-Length: 2'' @ [CR, LF, CR, LF] @ ''hi''\<rparr>)) \<and>
   sample_parsed [''Content-Type: application/json'', ''Content-Length: 2''] ''content-type'' =
     Some ''application/json'' \<and>
   Recv (\<lambda>s. s) sample_maxAlloc
       (sample_hdr [] [''Content-Type: application/json'', ''Content-Length: 2'']) =
     Inr (Inl (ErrorString ''invalid content-type''), Header [] (sample_reader ''hi'') sample_writer) \<and>
   sample_parsed [''Content-Length: 2''] ''content-type'' = None \<and>
   Recv (\<lambda>s. s) sample_maxAlloc (sample_hdr [] [''Content-Length: 2'']) =
     Inr (Inr ''hi'', Header [] (sample_reader []) sample_writer) \<and>
   Recv (\<lambda>s. s) 1 (sample_hdr [] [''Content-Length: 2'']) = Inl MakesliceLenOutOfRange"
proof -
  let ?L1 = "[''Content-Type: application/json'', ''Content-Length: 2'']"
  let ?L2 = "[''Content-Length: 2'']"
  have h: "sample_hdr [] ls = Header [] (sample_reader (sample_lines ls ''hi'')) sample_writer" for ls
    by (simp add: sample_hdr_def)
  have "read_headers (\<lambda>s. s) Map.empty (rd (sample_hdr [] ?L1)) =
     (Inr (sample_parsed ?L1), sample_reader ''hi'')"
    by (rule sample_hdr_parsed) code_simp+
  then have p1: "read_headers (\<lambda>s. s) Map.empty (sample_reader (sample_lines ?L1 ''hi'')) =
     (Inr (sample_parsed ?L1), sample_reader ''hi'')"
    by (simp add: sample_hdr_def Header_def)
  have "read_headers (\<lambda>s. s) Map.empty (rd (sample_hdr [] ?L2)) =
     (Inr (sample_parsed ?L2), sample_reader ''hi'')"
    by (rule sample_hdr_parsed) code_simp+
  then have p2: "read_headers (\<lambda>s. s) Map.empty (sample_reader (sample_lines ?L2 ''hi'')) =
     (Inr (sample_parsed ?L2), sample_reader ''hi'')"
    by (simp add: sample_hdr_def Header_def)
  have v1: "sample_parsed ?L1 ''content-type'' = Some ''application/json''"
    by code_simp
  have v2: "sample_parsed ?L2 ''content-type'' = None"
    "sample_parsed ?L2 ''content-length'' = Some ''2''" "Atoi ''2'' = Some 2"
    "nat 2 \<le> length (pending (sample_reader ''hi''))" "take (nat 2) (pending (sample_reader ''hi'')) = ''hi''"
    "(sample_reader ''hi'')\<lparr>pending := drop (nat 2) (pending (sample_reader ''hi''))\<rparr> = sample_reader []"
    "nat 2 \<le> sample_maxAlloc" "1 < nat 2"
    by code_simp+
  have s: "Send (Header [] (sample_reader []) sample_writer) ''hi'' =
     (None, Header [] (sample_reader [])
              (sample_writer\<lparr>written := ''Content-Length: 2'' @ [CR, LF, CR, LF] @ ''hi''\<rparr>))"
  proof -
    have "broken sample_writer = None" "written sample_writer = []"
      by (simp_all add: sample_writer_def)
    moreover have "Itoa (int (length ''hi'')) = ''2''"
      by code_simp
    ultimately show ?thesis
      using header_without_mime [where r = "sample_reader []" and w = sample_writer and msg = "''hi''"]
      by simp
  qed
  have c1: "Recv (\<lambda>s. s) sample_maxAlloc (sample_hdr [] ?L1) =
     Inr (Inl (ErrorString ''invalid content-type''), Header [] (sample_reader ''hi'') sample_writer)"
    using header_without_mime [where r = "sample_reader (sample_lines ?L1 ''hi'')"
            and w = sample_writer and lo = "\<lambda>s. s" and p = "sample_parsed ?L1"
            and r' = "sample_reader ''hi''" and ct = "''application/json''"
            and maxAlloc = sample_maxAlloc] p1 v1
    by (simp add: h)
  have c2: "Recv (\<lambda>s. s) sample_maxAlloc (sample_hdr [] ?L2) =
     Inr (Inr ''hi'', Header [] (sample_reader []) sample_writer)"
    using header_without_mime [where r = "sample_reader (sample_lines ?L2 ''hi'')"
            and w = sample_writer and lo = "\<lambda>s. s" and p = "sample_parsed ?L2"
            and r' = "sample_reader ''hi''" and clen = "''2''" and n = 2
            and maxAlloc = sample_maxAlloc] p2 v2
    by (simp add: h)
  have c3: "Recv (\<lambda>s. s) 1 (sample_hdr [] ?L2) = Inl MakesliceLenOutOfRange"
    using header_without_mime [where r = "sample_reader (sample_lines ?L2 ''hi'')"
            and w = sample_writer and lo = "\<lambda>s. s" and p = "sample_parsed ?L2"
            and r' = "sample_reader ''hi''" and clen = "''2''" and n = 2
            and maxAlloc = 1] p2 v2
    by (simp add: h)
  have c0: "ctype (Header [] (sample_reader []) sample_writer) = []"
    using header_without_mime [where r = "sample_reader []" and w = sample_writer] by simp
  from c0 s v1 c1 v2(1) c2 c3 show ?thesis by (intro conjI)
qed




end
